theory Spec2Isabelle
  imports Complex_Main "HOL-Library.Word"
begin

section \<open>Python floats\<close>

text \<open>
  A Python float is an IEEE 754 binary64 value. It is modelled by its 64-bit pattern:
  bit 63 is the sign, bits 62 to 52 the biased exponent, bits 51 to 0 the fraction. Two
  floats are bit-exact equal when their patterns are equal words.

  Every finite double is an integer multiple of \<open>2\<^sup>-\<^sup>1\<^sup>0\<^sup>7\<^sup>4\<close>; \<open>magnitude\<close> is
  that multiple for the absolute value and \<open>scaled\<close> the signed one. For an infinity
  the same formula gives \<open>2\<^sup>2\<^sup>0\<^sup>9\<^sup>8\<close>, above every finite magnitude, so that \<open>scaled\<close>
  orders all values that are not NaN.
\<close>

type_synonym double = "64 word"

definition sign_of :: "double \<Rightarrow> bool" where
  "sign_of d \<longleftrightarrow> 2 ^ 63 \<le> unat d"

definition exponent_of :: "double \<Rightarrow> nat" where
  "exponent_of d = (unat d div 2 ^ 52) mod 2 ^ 11"

definition fraction_of :: "double \<Rightarrow> nat" where
  "fraction_of d = unat d mod 2 ^ 52"

definition is_nan :: "double \<Rightarrow> bool" where
  "is_nan d \<longleftrightarrow> exponent_of d = 2047 \<and> fraction_of d \<noteq> 0"

definition is_inf :: "double \<Rightarrow> bool" where
  "is_inf d \<longleftrightarrow> exponent_of d = 2047 \<and> fraction_of d = 0"

definition is_finite :: "double \<Rightarrow> bool" where
  "is_finite d \<longleftrightarrow> exponent_of d \<noteq> 2047"

definition magnitude :: "double \<Rightarrow> nat" where
  "magnitude d =
     (if exponent_of d = 0 then fraction_of d
      else (2 ^ 52 + fraction_of d) * 2 ^ (exponent_of d - 1))"

definition scaled :: "double \<Rightarrow> int" where
  "scaled d = (if sign_of d then - int (magnitude d) else int (magnitude d))"

text \<open>The real number a finite double stands for.\<close>

definition real_of_double :: "double \<Rightarrow> real" where
  "real_of_double d = of_int (scaled d) / 2 ^ 1074"

text \<open>
  The comparisons \<^verbatim>\<open>>\<close>, \<^verbatim>\<open>==\<close> and \<^verbatim>\<open>!=\<close> of Python floats: a NaN is
  neither greater than nor equal to anything, and the two zeros are equal.
\<close>

definition double_gt :: "double \<Rightarrow> double \<Rightarrow> bool" where
  "double_gt a b \<longleftrightarrow> \<not> is_nan a \<and> \<not> is_nan b \<and> scaled a > scaled b"

definition double_eq :: "double \<Rightarrow> double \<Rightarrow> bool" where
  "double_eq a b \<longleftrightarrow> \<not> is_nan a \<and> \<not> is_nan b \<and> scaled a = scaled b"

definition double_ne :: "double \<Rightarrow> double \<Rightarrow> bool" where
  "double_ne a b \<longleftrightarrow> \<not> double_eq a b"

definition encode :: "bool \<Rightarrow> nat \<Rightarrow> nat \<Rightarrow> double" where
  "encode s e f = word_of_nat ((if s then 2 ^ 63 else 0) + e * 2 ^ 52 + f)"

definition infinity :: "bool \<Rightarrow> double" where
  "infinity s = encode s 2047 0"

definition nan :: double where
  "nan = encode False 2047 (2 ^ 51)"

text \<open>The number of binary digits of a natural number.\<close>

fun bit_length :: "nat \<Rightarrow> nat" where
  "bit_length n = (if n = 0 then 0 else Suc (bit_length (n div 2)))"

declare bit_length.simps [simp del]

text \<open>
  Rounding to nearest, ties to even, of the positive magnitude \<open>n\<close> (in units of
  \<open>2\<^sup>-\<^sup>1\<^sup>0\<^sup>7\<^sup>4\<close>) with sign \<open>s\<close>. Below \<open>2\<^sup>5\<^sup>3\<close> the magnitude is representable as it
  is. Otherwise the leading 53 bits \<open>q\<close> are kept and the remainder \<open>r\<close> decides the
  direction; a carry out of the 53 bits moves to the next exponent, and an exponent
  beyond the largest finite one gives an infinity.
\<close>

definition round_magnitude :: "bool \<Rightarrow> nat \<Rightarrow> double" where
  "round_magnitude s n =
     (if n < 2 ^ 53 then encode s (n div 2 ^ 52) (n mod 2 ^ 52)
      else
        let shift = bit_length n - 53;
            q = n div 2 ^ shift;
            r = n mod 2 ^ shift;
            half = 2 ^ (shift - 1);
            q = (if r > half \<or> (r = half \<and> odd q) then q + 1 else q);
            (q, shift) = (if q = 2 ^ 53 then (2 ^ 52, shift + 1) else (q, shift))
        in if shift + 1 \<ge> 2047 then infinity s else encode s (shift + 1) (q - 2 ^ 52))"

text \<open>\<^verbatim>\<open>abs(x)\<close> clears the sign bit.\<close>

definition double_abs :: "double \<Rightarrow> double" where
  "double_abs d = word_of_nat (unat d mod 2 ^ 63)"

text \<open>
  \<^verbatim>\<open>a - b\<close>: NaN if an operand is NaN or both are infinities of one sign; an infinite
  operand decides the result otherwise; the exact difference of two finite operands is
  rounded, and an exact zero is negative only for \<^verbatim>\<open>-0.0 - 0.0\<close>. Every NaN result
  is given the one pattern \<open>nan\<close>: the comparisons below tell a NaN only by its being
  one, not by its payload.
\<close>

definition double_sub :: "double \<Rightarrow> double \<Rightarrow> double" where
  "double_sub a b =
     (if is_nan a \<or> is_nan b then nan
      else if is_inf a then (if is_inf b \<and> sign_of a = sign_of b then nan else a)
      else if is_inf b then infinity (\<not> sign_of b)
      else
        let k = scaled a - scaled b in
        if k = 0 then encode (sign_of a \<and> \<not> sign_of b) 0 0
        else round_magnitude (k < 0) (nat \<bar>k\<bar>))"

text \<open>The float literals used in the examples, by bit pattern.\<close>

definition float_0 :: double where "float_0 = 0x0000000000000000"
definition float_neg_0 :: double where "float_neg_0 = 0x8000000000000000"
definition float_1 :: double where "float_1 = 0x3FF0000000000000"
definition float_2 :: double where "float_2 = 0x4000000000000000"
definition float_3 :: double where "float_3 = 0x4008000000000000"
definition float_4 :: double where "float_4 = 0x4010000000000000"
definition float_5 :: double where "float_5 = 0x4014000000000000"
definition float_6 :: double where "float_6 = 0x4018000000000000"
definition float_7 :: double where "float_7 = 0x401C000000000000"
definition float_8 :: double where "float_8 = 0x4020000000000000"
definition float_9 :: double where "float_9 = 0x4022000000000000"
definition float_10 :: double where "float_10 = 0x4024000000000000"
definition float_11 :: double where "float_11 = 0x4026000000000000"
definition float_12 :: double where "float_12 = 0x4028000000000000"
definition float_15 :: double where "float_15 = 0x402E000000000000"
definition float_20 :: double where "float_20 = 0x4034000000000000"
definition float_100 :: double where "float_100 = 0x4059000000000000"
definition float_200 :: double where "float_200 = 0x4069000000000000"

text \<open>\<^verbatim>\<open>100.09\<close>, \<^verbatim>\<open>0.1\<close> and \<^verbatim>\<open>-2.0 ** -60\<close>.\<close>

definition float_100_09 :: double where "float_100_09 = 0x405905C28F5C28F6"
definition float_0_1 :: double where "float_0_1 = 0x3FB999999999999A"
definition float_neg_2_pow_neg_60 :: double where "float_neg_2_pow_neg_60 = 0xBC30000000000000"

section \<open>Hardware interaction model\<close>

text \<open>
  The two devices of the repository (\<^verbatim>\<open>ApertureScatterguard\<close> in
  \<^verbatim>\<open>aperturescatterguard.py\<close> and \<^verbatim>\<open>EigerDetector\<close> in \<^verbatim>\<open>eiger.py\<close>) talk to
  hardware through control-system signals: a signal is read with \<^verbatim>\<open>get()\<close>, written
  with \<^verbatim>\<open>set(v)\<close> (which returns a status object) or \<^verbatim>\<open>put(v)\<close>, and a status is
  combined with \<^verbatim>\<open>&\<close> and blocked on with \<^verbatim>\<open>wait(timeout)\<close>.

  Every such interaction is recorded, in program order, in a trace carried by the device
  state. What the hardware answers (readbacks, how a wait ends, whether a status reports
  success) is not decided by the code: it is given by an environment record that every
  operation takes as a parameter.
\<close>

datatype signal =
    ApertureX | ApertureY | ApertureZ
  | ScatterguardX | ScatterguardY
  | CamRoiMode | CamAcquireTime | CamAcquirePeriod | CamNumExposures | CamImageMode
  | CamTriggerMode | CamBeamCenterX | CamBeamCenterY | CamDetDistance | CamOmegaStart
  | CamOmegaIncr | CamPhotonEnergy | CamNumImages | CamNumTriggers | CamAcquire
  | OdinImageHeight | OdinImageWidth | OdinNumRowChunks | OdinNumColChunks
  | OdinNumFramesChunks | OdinFilePath | OdinFileName | OdinId | OdinNumCapture
  | OdinNumCaptured | OdinStartTimeout | OdinDataType | OdinCapture
  | OdinMetaFileName | OdinMetaReady | OdinFanReady
  | StaleParams

datatype val = VFloat double | VInt int | VStr string

text \<open>
  A status object is the tree the code builds: the status returned by one \<^verbatim>\<open>set\<close>,
  the conjunction \<^verbatim>\<open>a & b\<close>, a fresh \<^verbatim>\<open>Status\<close> on which \<^verbatim>\<open>set_finished()\<close> was
  called, the status of \<^verbatim>\<open>await_value(signal, value)\<close>, and the two statuses handed
  out by the writer subsystem (\<^verbatim>\<open>odin.stop()\<close>, \<^verbatim>\<open>odin.create_finished_status()\<close>).
\<close>

datatype status =
    SetStatus signal val
  | AndStatus status status
  | FinishedStatus
  | AwaitValue signal val
  | OdinStopStatus
  | OdinFinishedStatus

datatype event =
    SetCall signal val
  | PutCall signal val
  | Waited status "nat option"
  | LogInfo string
  | LogError string
  | ClearOdinErrors
  | OdinStop
  | CreateFinishedStatus

datatype error =
    InvalidApertureMove string
  | AssertionError
  | AttributeError
  | Exception string
  | StatusFailure

text \<open>
  A call returns a value, raises, or never returns (a \<^verbatim>\<open>wait()\<close> without timeout on a
  status that never finishes).
\<close>

datatype 'a result = Returned 'a | Raised error | Blocked

datatype wait_outcome = WaitReturns | WaitRaises | WaitBlocks

record env =
  ap_z_motor_done_move :: bool
  ap_z_user_setpoint :: double
  ap_y_user_readback :: double
  photon_energy_value :: double
  bit_depth_value :: nat
  wait_ends :: "status \<Rightarrow> nat option \<Rightarrow> wait_outcome"
  status_success :: "status \<Rightarrow> bool"
  odin_initialised :: "bool \<times> string"
  odin_state :: bool

record device =
  trace :: "event list"

type_synonym ('s, 'a) action = "'s \<Rightarrow> 'a result \<times> 's"

definition return :: "'a \<Rightarrow> ('s, 'a) action" where
  "return x s = (Returned x, s)"

definition raise :: "error \<Rightarrow> ('s, 'a) action" where
  "raise e s = (Raised e, s)"

definition bind :: "('s, 'a) action \<Rightarrow> ('a \<Rightarrow> ('s, 'b) action) \<Rightarrow> ('s, 'b) action" where
  "bind m f s =
     (case m s of
        (Returned x, s') \<Rightarrow> f x s'
      | (Raised e, s') \<Rightarrow> (Raised e, s')
      | (Blocked, s') \<Rightarrow> (Blocked, s'))"

definition thn :: "('s, 'a) action \<Rightarrow> ('s, 'b) action \<Rightarrow> ('s, 'b) action" where
  "thn m n = bind m (\<lambda>_. n)"

definition emit :: "event \<Rightarrow> ('a device_scheme, unit) action" where
  "emit e s = (Returned (), s\<lparr>trace := trace s @ [e]\<rparr>)"

text \<open>\<^verbatim>\<open>signal.set(v)\<close>: the write is issued and its status object returned.\<close>

definition set_signal :: "signal \<Rightarrow> val \<Rightarrow> ('a device_scheme, status) action" where
  "set_signal sig v = thn (emit (SetCall sig v)) (return (SetStatus sig v))"

text \<open>\<^verbatim>\<open>signal.put(v)\<close>: the write is issued, nothing is returned.\<close>

definition put_signal :: "signal \<Rightarrow> val \<Rightarrow> ('a device_scheme, unit) action" where
  "put_signal sig v = emit (PutCall sig v)"

text \<open>
  A status on which \<^verbatim>\<open>set_finished()\<close> was called is done and successful whatever the
  hardware does: a wait on it returns at once and its \<^verbatim>\<open>success\<close> flag is set. For any
  other status the environment decides.
\<close>

definition wait_outcome_of :: "env \<Rightarrow> status \<Rightarrow> nat option \<Rightarrow> wait_outcome" where
  "wait_outcome_of E st timeout =
     (if st = FinishedStatus then WaitReturns else wait_ends E st timeout)"

definition success :: "env \<Rightarrow> status \<Rightarrow> bool" where
  "success E st \<longleftrightarrow> st = FinishedStatus \<or> status_success E st"

text \<open>
  \<^verbatim>\<open>status.wait(timeout)\<close>: a wait that returns is recorded in the trace; one that
  raises or blocks leaves the trace as it is.
\<close>

definition wait :: "env \<Rightarrow> status \<Rightarrow> nat option \<Rightarrow> ('a device_scheme, unit) action" where
  "wait E st timeout s =
     (case wait_outcome_of E st timeout of
        WaitReturns \<Rightarrow> emit (Waited st timeout) s
      | WaitRaises \<Rightarrow> (Raised StatusFailure, s)
      | WaitBlocks \<Rightarrow> (Blocked, s))"

definition log_info :: "string \<Rightarrow> ('a device_scheme, unit) action" where
  "log_info msg = emit (LogInfo msg)"

definition log_error :: "string \<Rightarrow> ('a device_scheme, unit) action" where
  "log_error msg = emit (LogError msg)"

text \<open>
  \<open>precedes tr a b\<close>: in the trace \<open>tr\<close>, every occurrence of the event \<open>b\<close> has an
  occurrence of the event \<open>a\<close> strictly before it.
\<close>

definition precedes :: "event list \<Rightarrow> event \<Rightarrow> event \<Rightarrow> bool" where
  "precedes tr a b \<longleftrightarrow> (\<forall>i < length tr. tr ! i = b \<longrightarrow> (\<exists>j < i. tr ! j = a))"

section \<open>ApertureScatterguard\<close>

text \<open>
  A position is a tuple of five float objects. Membership of a tuple in a list compares
  with \<^verbatim>\<open>==\<close> behind an identity shortcut, and so does the comparison of two tuples
  for each pair of components: two components are equal when they are the same object
  or when their values are \<^verbatim>\<open>==\<close> as floats. A float object is therefore its identity
  together with its value.
\<close>

datatype float_obj = Float (ident: nat) (bits: double)

type_synonym position = "float_obj \<times> float_obj \<times> float_obj \<times> float_obj \<times> float_obj"

definition same_or_equal :: "float_obj \<Rightarrow> float_obj \<Rightarrow> bool" where
  "same_or_equal x y \<longleftrightarrow> ident x = ident y \<or> double_eq (bits x) (bits y)"

definition tuple_eq :: "position \<Rightarrow> position \<Rightarrow> bool" where
  "tuple_eq a b =
     (case a of (a1, a2, a3, a4, a5) \<Rightarrow>
      case b of (b1, b2, b3, b4, b5) \<Rightarrow>
        same_or_equal a1 b1 \<and> same_or_equal a2 b2 \<and> same_or_equal a3 b3 \<and>
        same_or_equal a4 b4 \<and> same_or_equal a5 b5)"

text \<open>The five bit patterns of a position: what bit-exact equality of targets compares.\<close>

definition position_bits :: "position \<Rightarrow> double \<times> double \<times> double \<times> double \<times> double" where
  "position_bits a =
     (case a of (a1, a2, a3, a4, a5) \<Rightarrow> (bits a1, bits a2, bits a3, bits a4, bits a5))"

record AperturePositions =
  LARGE :: position
  MEDIUM :: position
  SMALL :: position
  ROBOT_LOAD :: position

definition position_valid :: "AperturePositions \<Rightarrow> position \<Rightarrow> bool" where
  "position_valid self pos =
     (if \<not> list_ex (\<lambda>preset. tuple_eq preset pos)
             [LARGE self, MEDIUM self, SMALL self, ROBOT_LOAD self] then False
      else True)"

record ApertureScatterguard = device +
  aperture_positions :: "AperturePositions option"

definition load_aperture_positions ::
  "AperturePositions \<Rightarrow> ApertureScatterguard \<Rightarrow> ApertureScatterguard" where
  "load_aperture_positions positions self = self\<lparr>aperture_positions := Some positions\<rparr>"

text \<open>
  The safe move returns \<^verbatim>\<open>None\<close> when the aperture z axis has not finished moving,
  and the final composite status otherwise.
\<close>

definition safe_move_within_datacollection_range ::
  "env \<Rightarrow> double \<Rightarrow> double \<Rightarrow> double \<Rightarrow> double \<Rightarrow> double \<Rightarrow>
   (ApertureScatterguard, status option) action" where
  "safe_move_within_datacollection_range E aperture_x aperture_y aperture_z
       scatterguard_x scatterguard_y =
     (let ap_z_in_position = ap_z_motor_done_move E in
      if \<not> ap_z_in_position then return None
      else
        let current_ap_z = ap_z_user_setpoint E in
        if double_ne current_ap_z aperture_z then
          raise (InvalidApertureMove
            (''ApertureScatterguard safe move is not yet defined for positions '' @
             ''outside of LARGE, MEDIUM, SMALL, ROBOT_LOAD.''))
        else
          let current_ap_y = ap_y_user_readback E in
          if double_gt aperture_y current_ap_y then
            bind (set_signal ScatterguardX (VFloat scatterguard_x)) (\<lambda>sgx.
            bind (set_signal ScatterguardY (VFloat scatterguard_y)) (\<lambda>sgy.
            let sg_status = AndStatus sgx sgy in
            thn (wait E sg_status None) (
            bind (set_signal ApertureX (VFloat aperture_x)) (\<lambda>apx.
            bind (set_signal ApertureY (VFloat aperture_y)) (\<lambda>apy.
            bind (set_signal ApertureZ (VFloat aperture_z)) (\<lambda>apz.
            return (Some (AndStatus (AndStatus (AndStatus sg_status apx) apy) apz))))))))
          else
            bind (set_signal ApertureX (VFloat aperture_x)) (\<lambda>apx.
            bind (set_signal ApertureY (VFloat aperture_y)) (\<lambda>apy.
            bind (set_signal ApertureZ (VFloat aperture_z)) (\<lambda>apz.
            let ap_status = AndStatus (AndStatus apx apy) apz in
            thn (wait E ap_status None) (
            bind (set_signal ScatterguardX (VFloat scatterguard_x)) (\<lambda>sgx.
            bind (set_signal ScatterguardY (VFloat scatterguard_y)) (\<lambda>sgy.
            return (Some (AndStatus (AndStatus ap_status sgx) sgy)))))))))"

text \<open>
  \<^verbatim>\<open>set(pos)\<close>: both assertions sit in one \<^verbatim>\<open>try\<close> block whose handler turns an
  \<^verbatim>\<open>AssertionError\<close> into \<^verbatim>\<open>InvalidApertureMove(repr(e))\<close>.
\<close>

definition set_ApertureScatterguard ::
  "env \<Rightarrow> position \<Rightarrow> (ApertureScatterguard, status option) action" where
  "set_ApertureScatterguard E pos self =
     (case aperture_positions self of
        None \<Rightarrow> raise (InvalidApertureMove ''AssertionError()'') self
      | Some positions \<Rightarrow>
          if \<not> position_valid positions pos then
            raise (InvalidApertureMove ''AssertionError()'') self
          else
            (case pos of (aperture_x, aperture_y, aperture_z, scatterguard_x, scatterguard_y) \<Rightarrow>
               safe_move_within_datacollection_range E (bits aperture_x) (bits aperture_y)
                 (bits aperture_z) (bits scatterguard_x) (bits scatterguard_y) self))"

section \<open>EigerDetector\<close>

subsection \<open>Detector parameters\<close>

text \<open>
  \<^verbatim>\<open>DetectorParams\<close>, \<^verbatim>\<open>TriggerMode\<close> and the detector size constants are imported
  by \<^verbatim>\<open>eiger.py\<close> from modules that are not part of the sources at hand. They are
  declared here with the fields \<^verbatim>\<open>eiger.py\<close> reads.
\<close>

text \<open>Modelled from the spec: the \<^verbatim>\<open>TriggerMode\<close> enum of \<^verbatim>\<open>dodal.devices.detector\<close>
  ("trigger_mode (enum: FREE_RUN, SET_FRAMES)").\<close>

datatype TriggerMode = FREE_RUN | SET_FRAMES

record DetectorSize =
  width :: int
  height :: int

text \<open>Modelled from the spec: the detector size constants of
  \<^verbatim>\<open>dodal.devices.det_dim_constants\<close> ("two named pixel-dimension records: full and ROI").\<close>

record DetectorSizeConstants =
  det_size_pixels :: DetectorSize
  roi_size_pixels :: DetectorSize

text \<open>Modelled from the spec: the \<^verbatim>\<open>DetectorParams\<close> class of
  \<^verbatim>\<open>dodal.devices.detector\<close>, with the fields of the spec's AcquisitionParameters. The
  beam converter is the lookup from a detector distance to a beam position in pixels; its
  arithmetic is outside the scope of the spec and is a parameter here.\<close>

record DetectorParams =
  current_energy :: double
  exposure_time :: double
  directory :: string
  prefix :: string
  run_number :: nat
  detector_distance :: double
  omega_start :: double
  omega_increment :: double
  num_images_per_trigger :: int
  num_triggers :: int
  use_roi_mode :: bool
  detector_size_constants :: "DetectorSizeConstants option"
  beam_xy_converter :: "(double \<Rightarrow> double \<times> double) option"
  trigger_mode :: TriggerMode

function string_of_nat :: "nat \<Rightarrow> string" where
  "string_of_nat n =
     (if n < 10 then [char_of (48 + n)]
      else string_of_nat (n div 10) @ [char_of (48 + n mod 10)])"
  by pat_completeness auto
termination
  by (relation "measure id") auto

declare string_of_nat.simps [simp del]

text \<open>Modelled from the spec: the derived property \<^verbatim>\<open>full_filename\<close> of
  \<^verbatim>\<open>DetectorParams\<close> ("full_filename = {prefix}_{run_number}").\<close>

definition full_filename :: "DetectorParams \<Rightarrow> string" where
  "full_filename p = prefix p @ ''_'' @ string_of_nat (run_number p)"

text \<open>Modelled from the spec: the derived property \<^verbatim>\<open>full_number_of_images\<close> of
  \<^verbatim>\<open>DetectorParams\<close> ("writer capture-count = num_triggers \<times> num_images_per_trigger").\<close>

definition full_number_of_images :: "DetectorParams \<Rightarrow> int" where
  "full_number_of_images p = num_triggers p * num_images_per_trigger p"

text \<open>Modelled from the spec: the method \<^verbatim>\<open>get_beam_position_pixels\<close> of
  \<^verbatim>\<open>DetectorParams\<close> ("beam-center/geometry settings derived from energy and detector
  distance via the lookup converter"). Without a converter the attribute access fails.\<close>

definition get_beam_position_pixels ::
  "DetectorParams \<Rightarrow> double \<Rightarrow> ('s, double \<times> double) action" where
  "get_beam_position_pixels p distance =
     (case beam_xy_converter p of
        None \<Rightarrow> raise AttributeError
      | Some converter \<Rightarrow> return (converter distance))"

subsection \<open>The detector\<close>

definition FREE_RUN_MAX_IMAGES :: int where
  "FREE_RUN_MAX_IMAGES = 1000000"

datatype InternalEigerTriggerMode =
  INTERNAL_SERIES | INTERNAL_ENABLE | EXTERNAL_SERIES | EXTERNAL_ENABLE

fun trigger_mode_value :: "InternalEigerTriggerMode \<Rightarrow> int" where
  "trigger_mode_value INTERNAL_SERIES = 0"
| "trigger_mode_value INTERNAL_ENABLE = 1"
| "trigger_mode_value EXTERNAL_SERIES = 2"
| "trigger_mode_value EXTERNAL_ENABLE = 3"

text \<open>The value of the area-detector enum member \<^verbatim>\<open>cam.ImageMode.MULTIPLE\<close>.\<close>

definition ImageMode_MULTIPLE :: val where
  "ImageMode_MULTIPLE = VInt 1"

definition STALE_PARAMS_TIMEOUT :: nat where
  "STALE_PARAMS_TIMEOUT = 60"

text \<open>
  \<^verbatim>\<open>filewriters_finished\<close> is only annotated in the class body: the attribute does not
  exist until \<^verbatim>\<open>arm_detector\<close> assigns it.
\<close>

record EigerDetector = device +
  detector_params :: "DetectorParams option"
  filewriters_finished :: "status option"

definition join_lines :: "string list \<Rightarrow> string" where
  "join_lines xs = (case xs of [] \<Rightarrow> [] | y # ys \<Rightarrow> foldl (\<lambda>acc z. acc @ [CHR 0x0A] @ z) y ys)"

text \<open>The number of lines of a message, as the unit test counts them: newlines plus one.\<close>

definition number_of_lines :: "string \<Rightarrow> nat" where
  "number_of_lines msg = count_list msg (CHR 0x0A) + 1"

definition set_detector_parameters ::
  "DetectorParams option \<Rightarrow> (EigerDetector, unit) action" where
  "set_detector_parameters params self =
     (let self = self\<lparr>detector_params := params\<rparr> in
      case detector_params self of
        None \<Rightarrow> raise (Exception ''Parameters for scan must be specified'') self
      | Some p \<Rightarrow>
          let to_check =
                [(detector_size_constants p = None, ''Detector Size must be set''),
                 (beam_xy_converter p = None, ''Beam converter must be set'')];
              errors = map snd (filter fst to_check)
          in if errors \<noteq> [] then raise (Exception (join_lines errors)) self
             else return () self)"

definition EigerDetector_init :: EigerDetector where
  "EigerDetector_init = \<lparr>trace = [], detector_params = None, filewriters_finished = None\<rparr>"

definition with_params :: "DetectorParams \<Rightarrow> EigerDetector result \<times> EigerDetector" where
  "with_params params =
     bind (set_detector_parameters (Some params)) (\<lambda>_ det. (Returned det, det))
       EigerDetector_init"

text \<open>\<^verbatim>\<open>assert self.detector_params is not None\<close>\<close>

definition assert_detector_params :: "(EigerDetector, DetectorParams) action" where
  "assert_detector_params self =
     (case detector_params self of
        None \<Rightarrow> raise AssertionError self
      | Some p \<Rightarrow> return p self)"

definition change_roi_mode :: "env \<Rightarrow> bool \<Rightarrow> (EigerDetector, unit) action" where
  "change_roi_mode E enable =
     bind assert_detector_params (\<lambda>p.
     case detector_size_constants p of
       None \<Rightarrow> raise AttributeError
     | Some constants \<Rightarrow>
         let detector_dimensions =
               (if enable then roi_size_pixels constants else det_size_pixels constants) in
         bind (set_signal CamRoiMode (VInt (if enable then 1 else 0))) (\<lambda>s1.
         bind (set_signal OdinImageHeight (VInt (height detector_dimensions))) (\<lambda>s2.
         bind (set_signal OdinImageWidth (VInt (width detector_dimensions))) (\<lambda>s3.
         bind (set_signal OdinNumRowChunks (VInt (height detector_dimensions))) (\<lambda>s4.
         bind (set_signal OdinNumColChunks (VInt (width detector_dimensions))) (\<lambda>s5.
         let status = AndStatus (AndStatus (AndStatus (AndStatus s1 s2) s3) s4) s5 in
         thn (wait E status (Some 10)) (
         if \<not> success E status then log_error ''Failed to switch to ROI mode''
         else return ())))))))"

definition enable_roi_mode :: "env \<Rightarrow> (EigerDetector, unit) action" where
  "enable_roi_mode E = change_roi_mode E True"

definition disable_roi_mode :: "env \<Rightarrow> (EigerDetector, unit) action" where
  "disable_roi_mode E = change_roi_mode E False"

definition set_cam_pvs :: "(EigerDetector, status) action" where
  "set_cam_pvs =
     bind assert_detector_params (\<lambda>p.
     bind (set_signal CamAcquireTime (VFloat (exposure_time p))) (\<lambda>s1.
     bind (set_signal CamAcquirePeriod (VFloat (exposure_time p))) (\<lambda>s2.
     bind (set_signal CamNumExposures (VInt 1)) (\<lambda>s3.
     bind (set_signal CamImageMode ImageMode_MULTIPLE) (\<lambda>s4.
     bind (set_signal CamTriggerMode (VInt (trigger_mode_value EXTERNAL_SERIES))) (\<lambda>s5.
     return (AndStatus (AndStatus (AndStatus (AndStatus s1 s2) s3) s4) s5)))))))"

definition set_odin_pvs :: "env \<Rightarrow> (EigerDetector, status) action" where
  "set_odin_pvs E =
     bind assert_detector_params (\<lambda>p.
     bind (set_signal OdinNumFramesChunks (VInt 1)) (\<lambda>s0.
     thn (wait E s0 (Some 10)) (
     let file_prefix = full_filename p in
     bind (set_signal OdinFilePath (VStr (directory p))) (\<lambda>s1.
     bind (set_signal OdinFileName (VStr file_prefix)) (\<lambda>s2.
     return (AndStatus (AndStatus (AndStatus s1 s2)
               (AwaitValue OdinMetaFileName (VStr file_prefix)))
               (AwaitValue OdinId (VStr file_prefix))))))))"

definition set_mx_settings_pvs :: "(EigerDetector, status) action" where
  "set_mx_settings_pvs =
     bind assert_detector_params (\<lambda>p.
     bind (get_beam_position_pixels p (detector_distance p)) (\<lambda>(beam_x_pixels, beam_y_pixels).
     bind (set_signal CamBeamCenterX (VFloat beam_x_pixels)) (\<lambda>s1.
     bind (set_signal CamBeamCenterY (VFloat beam_y_pixels)) (\<lambda>s2.
     bind (set_signal CamDetDistance (VFloat (detector_distance p))) (\<lambda>s3.
     bind (set_signal CamOmegaStart (VFloat (omega_start p))) (\<lambda>s4.
     bind (set_signal CamOmegaIncr (VFloat (omega_increment p))) (\<lambda>s5.
     return (AndStatus (AndStatus (AndStatus (AndStatus s1 s2) s3) s4) s5))))))))"

definition set_detector_threshold ::
  "env \<Rightarrow> double \<Rightarrow> double \<Rightarrow> (EigerDetector, status) action" where
  "set_detector_threshold E energy tolerance =
     (let current_energy = photon_energy_value E in
      if double_gt (double_abs (double_sub current_energy energy)) tolerance
      then set_signal CamPhotonEnergy (VFloat energy)
      else return FinishedStatus)"

text \<open>The default value of the \<^verbatim>\<open>tolerance\<close> argument of \<^verbatim>\<open>set_detector_threshold\<close>:
  the literal \<^verbatim>\<open>0.1\<close>, that is the double nearest to one tenth.\<close>

definition default_tolerance :: double where
  "default_tolerance = 0x3FB999999999999A"

definition set_num_triggers_and_captures :: "(EigerDetector, status) action" where
  "set_num_triggers_and_captures =
     bind assert_detector_params (\<lambda>p.
     bind (set_signal CamNumImages (VInt (num_images_per_trigger p))) (\<lambda>status.
     if trigger_mode p = FREE_RUN then
       bind (set_signal CamNumTriggers (VInt FREE_RUN_MAX_IMAGES)) (\<lambda>s1.
       bind (set_signal OdinNumCapture (VInt 0)) (\<lambda>s2.
       return (AndStatus (AndStatus status s1) s2)))
     else if trigger_mode p = SET_FRAMES then
       bind (set_signal CamNumTriggers (VInt (num_triggers p))) (\<lambda>s1.
       bind (set_signal OdinNumCapture (VInt (full_number_of_images p))) (\<lambda>s2.
       return (AndStatus (AndStatus status s1) s2)))
     else return status))"

definition wait_for_stale_parameters :: "env \<Rightarrow> (EigerDetector, unit) action" where
  "wait_for_stale_parameters E =
     wait E (AwaitValue StaleParams (VInt 0)) (Some STALE_PARAMS_TIMEOUT)"

definition forward_bit_depth_to_filewriter :: "env \<Rightarrow> (EigerDetector, unit) action" where
  "forward_bit_depth_to_filewriter E =
     (let bit_depth = bit_depth_value E in
      put_signal OdinDataType (VStr (''UInt'' @ string_of_nat bit_depth)))"

definition create_finished_status :: "(EigerDetector, status) action" where
  "create_finished_status = thn (emit CreateFinishedStatus) (return OdinFinishedStatus)"

definition arm_detector :: "env \<Rightarrow> (EigerDetector, unit) action" where
  "arm_detector E =
     thn (log_info ''Waiting on stale parameters to go low'') (
     thn (wait_for_stale_parameters E) (
     thn (forward_bit_depth_to_filewriter E) (
     bind (set_signal OdinCapture (VInt 1)) (\<lambda>s1.
     let odin_status = AndStatus s1 (AwaitValue OdinMetaReady (VInt 1)) in
     thn (wait E odin_status (Some 10)) (
     thn (log_info ''Setting aquire'') (
     bind (set_signal CamAcquire (VInt 1)) (\<lambda>s2.
     thn (wait E s2 (Some 10)) (
     bind create_finished_status (\<lambda>finished.
     thn (\<lambda>self. (Returned (), self\<lparr>filewriters_finished := Some finished\<rparr>)) (
     wait E (AwaitValue OdinFanReady (VInt 1)) (Some 10)))))))))))"

definition disarm_detector :: "(EigerDetector, unit) action" where
  "disarm_detector = put_signal CamAcquire (VInt 0)"

definition stage :: "env \<Rightarrow> (EigerDetector, unit) action" where
  "stage E =
     thn (emit ClearOdinErrors) (
     case odin_initialised E of (status_ok, error_message) \<Rightarrow>
     if \<not> status_ok then raise (Exception (''Odin not initialised: '' @ error_message))
     else
       bind (\<lambda>self. case detector_params self of
                      None \<Rightarrow> raise AttributeError self
                    | Some p \<Rightarrow> return p self) (\<lambda>p.
       thn (if use_roi_mode p then enable_roi_mode E else return ()) (
       bind (set_detector_threshold E (current_energy p) default_tolerance) (\<lambda>s1.
       bind set_cam_pvs (\<lambda>s2.
       bind (set_odin_pvs E) (\<lambda>s3.
       bind set_mx_settings_pvs (\<lambda>s4.
       bind set_num_triggers_and_captures (\<lambda>s5.
       let status = AndStatus (AndStatus (AndStatus (AndStatus s1 s2) s3) s4) s5 in
       thn (log_info ''Waiting on parameter callbacks'') (
       thn (wait E status (Some STALE_PARAMS_TIMEOUT)) (
       arm_detector E))))))))))"

definition odin_stop :: "(EigerDetector, status) action" where
  "odin_stop = thn (emit OdinStop) (return OdinStopStatus)"

definition unstage :: "env \<Rightarrow> (EigerDetector, bool) action" where
  "unstage E =
     bind assert_detector_params (\<lambda>p.
     thn (if trigger_mode p = FREE_RUN then
            thn (log_info ''Waiting on all frames'') (
            thn (wait E (AwaitValue OdinNumCaptured (VInt (full_number_of_images p))) (Some 30)) (
            thn (log_info ''Stopping Odin'') (
            bind odin_stop (\<lambda>stopped. wait E stopped (Some 5)))))
          else return ()) (
     thn (put_signal OdinStartTimeout (VInt 1)) (
     thn (log_info ''Waiting on filewriter to finish'') (
     bind (\<lambda>self. case filewriters_finished self of
                    None \<Rightarrow> raise AttributeError self
                  | Some finished \<Rightarrow> return finished self) (\<lambda>finished.
     thn (wait E finished (Some 30)) (
     thn (log_info ''Disarming detector'') (
     thn disarm_detector (
     let status_ok = odin_state E in
     thn (disable_roi_mode E) (
     return status_ok)))))))))"

section \<open>Example inputs\<close>

text \<open>
  Concrete environments and devices on which the theorems below are instantiated. The
  detector parameters follow the values of the unit tests of \<^verbatim>\<open>eiger.py\<close>; the pixel
  dimensions and aperture presets are example values.
\<close>

definition test_env :: env where
  "test_env =
     \<lparr>ap_z_motor_done_move = True, ap_z_user_setpoint = float_0,
      ap_y_user_readback = float_10, photon_energy_value = float_100, bit_depth_value = 16,
      wait_ends = (\<lambda>_ _. WaitReturns), status_success = (\<lambda>_. True),
      odin_initialised = (True, []), odin_state = True\<rparr>"

definition test_positions :: AperturePositions where
  "test_positions =
     \<lparr>LARGE = (Float 1 float_1, Float 2 float_20, Float 3 float_0,
               Float 4 float_5, Float 5 float_6),
      MEDIUM = (Float 6 float_2, Float 7 float_15, Float 8 float_0,
                Float 9 float_7, Float 10 float_8),
      SMALL = (Float 11 float_3, Float 12 float_5, Float 13 float_0,
               Float 14 float_9, Float 15 float_10),
      ROBOT_LOAD = (Float 16 float_4, Float 17 float_0, Float 18 float_0,
                    Float 19 float_11, Float 20 float_12)\<rparr>"

text \<open>
  Three targets made of fresh float objects: one with the values of \<^verbatim>\<open>LARGE\<close>, one
  that differs from \<^verbatim>\<open>LARGE\<close> in its last component, and \<^verbatim>\<open>(4.0, -0.0, -0.0, 11.0,
  12.0)\<close>, which is \<^verbatim>\<open>ROBOT_LOAD\<close> up to the sign of its zeros.
\<close>

definition large_target :: position where
  "large_target =
     (Float 101 float_1, Float 102 float_20, Float 103 float_0,
      Float 104 float_5, Float 105 float_6)"

definition off_preset_target :: position where
  "off_preset_target =
     (Float 106 float_1, Float 107 float_20, Float 108 float_0,
      Float 109 float_5, Float 110 float_7)"

definition negative_zero_target :: position where
  "negative_zero_target =
     (Float 111 float_4, Float 112 float_neg_0, Float 113 float_neg_0,
      Float 114 float_11, Float 115 float_12)"

definition test_aperture_scatterguard :: ApertureScatterguard where
  "test_aperture_scatterguard = \<lparr>trace = [], aperture_positions = Some test_positions\<rparr>"

definition TEST_DETECTOR_SIZE_CONSTANTS :: DetectorSizeConstants where
  "TEST_DETECTOR_SIZE_CONSTANTS =
     \<lparr>det_size_pixels = \<lparr>width = 4148, height = 4362\<rparr>,
      roi_size_pixels = \<lparr>width = 4148, height = 2164\<rparr>\<rparr>"

definition TEST_DETECTOR_PARAMS :: DetectorParams where
  "TEST_DETECTOR_PARAMS =
     \<lparr>current_energy = float_100, exposure_time = float_1, directory = ''/test/dir/'',
      prefix = ''test'', run_number = 0, detector_distance = float_1, omega_start = float_0,
      omega_increment = float_1,
      num_images_per_trigger = 3, num_triggers = 3, use_roi_mode = True,
      detector_size_constants = Some TEST_DETECTOR_SIZE_CONSTANTS,
      beam_xy_converter = Some (\<lambda>distance. (distance, distance)),
      trigger_mode = SET_FRAMES\<rparr>"

definition fake_eiger :: EigerDetector where
  "fake_eiger =
     \<lparr>trace = [], detector_params = Some TEST_DETECTOR_PARAMS, filewriters_finished = None\<rparr>"

text \<open>The composite status that \<^verbatim>\<open>change_roi_mode(True)\<close> builds for the test parameters.\<close>

definition roi_switch_status :: status where
  "roi_switch_status =
     AndStatus (AndStatus (AndStatus (AndStatus
       (SetStatus CamRoiMode (VInt 1))
       (SetStatus OdinImageHeight (VInt 2164)))
       (SetStatus OdinImageWidth (VInt 4148)))
       (SetStatus OdinNumRowChunks (VInt 2164)))
       (SetStatus OdinNumColChunks (VInt 4148))"

text \<open>An environment in which the ROI switch, and nothing else, does not complete.\<close>

definition roi_failing_env :: env where
  "roi_failing_env =
     test_env\<lparr>wait_ends := (\<lambda>st _. if st = roi_switch_status then WaitRaises else WaitReturns),
              status_success := (\<lambda>st. st \<noteq> roi_switch_status)\<rparr>"

text \<open>
  An environment in which the energy reading is \<^verbatim>\<open>0.1\<close>.
\<close>

definition low_energy_env :: env where
  "low_energy_env = test_env\<lparr>photon_energy_value := float_0_1\<rparr>"

section \<open>Sequences of calls\<close>

text \<open>
  The calls of the acquisition lifecycle, made one after another on one detector. A call
  that raises hands the detector back to the caller, who may go on with the next call; a
  call that never returns ends the sequence. Each call comes with the environment that
  answers it.
\<close>

datatype call = SetDetectorParameters "DetectorParams option" | Stage | Unstage

fun run_call :: "env \<Rightarrow> call \<Rightarrow> (EigerDetector, unit) action" where
  "run_call E (SetDetectorParameters params) = set_detector_parameters params"
| "run_call E Stage = stage E"
| "run_call E Unstage = bind (unstage E) (\<lambda>_. return ())"

fun after_calls :: "(env \<times> call) list \<Rightarrow> EigerDetector \<Rightarrow> EigerDetector option" where
  "after_calls [] self = Some self"
| "after_calls ((E, c) # calls) self =
     (case run_call E c self of
        (Returned _, self') \<Rightarrow> after_calls calls self'
      | (Raised _, self') \<Rightarrow> after_calls calls self'
      | (Blocked, _) \<Rightarrow> None)"

section \<open>Auxiliary notions\<close>

text \<open>
  \<open>keeps_params p m\<close>: started in a state whose stored parameters are \<open>p\<close>, the action
  \<open>m\<close> does not fail an assertion and leaves the stored parameters in place.
\<close>

definition keeps_params :: "DetectorParams \<Rightarrow> (EigerDetector, 'a) action \<Rightarrow> bool" where
  "keeps_params p m \<longleftrightarrow>
     (\<forall>s. detector_params s = Some p \<longrightarrow>
        fst (m s) \<noteq> Raised AssertionError \<and> detector_params (snd (m s)) = Some p)"

section \<open>Evaluating floats\<close>

lemma bit_length_0 [simp]: "bit_length 0 = 0"
  by (simp add: bit_length.simps)

lemma bit_length_1 [simp]: "bit_length 1 = 1" "bit_length (Suc 0) = 1"
  by (subst bit_length.simps, simp)+

lemma bit_length_Bit0 [simp]:
  "bit_length (numeral (Num.Bit0 k)) = bit_length (numeral k) + 1"
proof -
  have "numeral (Num.Bit0 k) div (2::nat) = numeral k"
    by (metis numeral_Bit0_div_2)
  then show ?thesis
    by (subst bit_length.simps) simp
qed

lemma bit_length_Bit1 [simp]:
  "bit_length (numeral (Num.Bit1 k)) = bit_length (numeral k) + 1"
proof -
  have "numeral (Num.Bit1 k) div (2::nat) = numeral k"
    by (metis numeral_Bit1_div_2)
  then show ?thesis
    by (subst bit_length.simps) simp
qed

lemmas double_defs = sign_of_def exponent_of_def fraction_of_def is_nan_def is_inf_def
  is_finite_def magnitude_def scaled_def double_gt_def double_eq_def double_ne_def
  double_sub_def round_magnitude_def encode_def infinity_def nan_def double_abs_def

lemmas float_defs = float_0_def float_neg_0_def float_1_def float_2_def float_3_def
  float_4_def float_5_def float_6_def float_7_def float_8_def float_9_def float_10_def
  float_11_def float_12_def float_15_def float_20_def float_100_def float_200_def
  float_100_09_def float_0_1_def float_neg_2_pow_neg_60_def

section \<open>Properties of the interaction model\<close>

lemmas action_defs = return_def raise_def bind_def thn_def emit_def set_signal_def
  put_signal_def wait_def wait_outcome_of_def log_info_def log_error_def

lemma precedes_Nil: "precedes [] a b"
  by (simp add: precedes_def)

lemma precedes_Cons: "precedes (e # es) a b \<longleftrightarrow> e \<noteq> b \<and> (e = a \<or> precedes es a b)"
proof
  assume P: "precedes (e # es) a b"
  have "e \<noteq> b"
  proof
    assume "e = b"
    with P have "\<exists>j < (0::nat). (e # es) ! j = a"
      unfolding precedes_def by auto
    then show False by simp
  qed
  moreover have "precedes es a b" if "e \<noteq> a"
    unfolding precedes_def
  proof (intro allI impI)
    fix i assume i: "i < length es" "es ! i = b"
    with P obtain j where j: "j < Suc i" "(e # es) ! j = a"
      unfolding precedes_def by fastforce
    with that obtain k where "j = Suc k" by (cases j) auto
    with j show "\<exists>j < i. es ! j = a" by auto
  qed
  ultimately show "e \<noteq> b \<and> (e = a \<or> precedes es a b)" by blast
next
  assume Q: "e \<noteq> b \<and> (e = a \<or> precedes es a b)"
  show "precedes (e # es) a b"
    unfolding precedes_def
  proof (intro allI impI)
    fix i assume i: "i < length (e # es)" "(e # es) ! i = b"
    with Q obtain k where k: "i = Suc k" by (cases i) auto
    show "\<exists>j < i. (e # es) ! j = a"
    proof (cases "e = a")
      case True
      with k show ?thesis by (intro exI [of _ 0]) simp
    next
      case False
      with Q have "precedes es a b" by simp
      with i k obtain j where "j < k" "es ! j = a"
        unfolding precedes_def by auto
      with k show ?thesis by (intro exI [of _ "Suc j"]) simp
    qed
  qed
qed

lemma bind_Returned: "m s = (Returned x, s') \<Longrightarrow> bind m f s = f x s'"
  by (simp add: bind_def)

lemma bind_Raised: "m s = (Raised e, s') \<Longrightarrow> bind m f s = (Raised e, s')"
  by (simp add: bind_def)

lemma keeps_return: "keeps_params p (return x)"
  by (simp add: keeps_params_def return_def)

lemma keeps_raise: "e \<noteq> AssertionError \<Longrightarrow> keeps_params p (raise e)"
  by (simp add: keeps_params_def raise_def)

lemma keeps_emit: "keeps_params p (emit e)"
  by (simp add: keeps_params_def emit_def)

lemma keeps_bind:
  assumes "keeps_params p m" and "\<And>x. keeps_params p (f x)"
  shows "keeps_params p (bind m f)"
  unfolding keeps_params_def
proof (intro allI impI)
  fix s :: EigerDetector assume s: "detector_params s = Some p"
  obtain r s' where ms: "m s = (r, s')" by (cases "m s")
  with assms(1) s have r: "r \<noteq> Raised AssertionError" and s': "detector_params s' = Some p"
    by (auto simp: keeps_params_def)
  show "fst (bind m f s) \<noteq> Raised AssertionError \<and> detector_params (snd (bind m f s)) = Some p"
  proof (cases r)
    case (Returned x)
    with ms assms(2) [of x] s' show ?thesis by (simp add: bind_def keeps_params_def)
  next
    case (Raised e)
    with ms r s' show ?thesis by (simp add: bind_def)
  next
    case Blocked
    with ms s' show ?thesis by (simp add: bind_def)
  qed
qed

lemma keeps_thn: "keeps_params p m \<Longrightarrow> keeps_params p n \<Longrightarrow> keeps_params p (thn m n)"
  by (simp add: thn_def keeps_bind)

lemma keeps_set_signal: "keeps_params p (set_signal sig v)"
  by (simp add: set_signal_def keeps_thn keeps_emit keeps_return)

lemma keeps_put_signal: "keeps_params p (put_signal sig v)"
  by (simp add: put_signal_def keeps_emit)

lemma keeps_log_info: "keeps_params p (log_info msg)"
  by (simp add: log_info_def keeps_emit)

lemma keeps_log_error: "keeps_params p (log_error msg)"
  by (simp add: log_error_def keeps_emit)

lemma keeps_wait: "keeps_params p (wait E st timeout)"
  by (simp add: keeps_params_def wait_def emit_def split: wait_outcome.split)

lemma keeps_assert: "keeps_params p assert_detector_params"
  by (simp add: keeps_params_def assert_detector_params_def return_def)

lemmas keeps_intros = keeps_return keeps_emit keeps_bind keeps_thn keeps_set_signal
  keeps_put_signal keeps_log_info keeps_log_error keeps_wait keeps_assert

section \<open>ApertureScatterguard: the safe move\<close>

text \<open>
  Claim C7. While the aperture z axis does not report motion-complete, the safe move does
  nothing: it returns \<^verbatim>\<open>None\<close>, raises no fault, issues no write and leaves the device
  as it was. Conversely, whenever the safe move raises a fault or extends the trace, the
  z axis had reported motion-complete: the z-plane check and the two ordered phases are
  reached only then.
\<close>

theorem safe_move_noop_while_z_moving:
  "(\<not> ap_z_motor_done_move E \<longrightarrow>
      safe_move_within_datacollection_range E ax ay az sx sy self = (Returned None, self)) \<and>
   ((\<exists>e. fst (safe_move_within_datacollection_range E ax ay az sx sy self) = Raised e) \<or>
    trace (snd (safe_move_within_datacollection_range E ax ay az sx sy self)) \<noteq> trace self
      \<longrightarrow> ap_z_motor_done_move E)"
  by (auto simp: safe_move_within_datacollection_range_def return_def)

theorem safe_move_noop_while_z_moving_witness:
  "\<not> ap_z_motor_done_move (test_env\<lparr>ap_z_motor_done_move := False\<rparr>) \<and>
   safe_move_within_datacollection_range (test_env\<lparr>ap_z_motor_done_move := False\<rparr>)
     float_1 float_20 float_0 float_5 float_6 test_aperture_scatterguard =
     (Returned None, test_aperture_scatterguard) \<and>
   fst (safe_move_within_datacollection_range test_env float_1 float_20 float_7 float_5 float_6
      test_aperture_scatterguard) =
     Raised (InvalidApertureMove
       (''ApertureScatterguard safe move is not yet defined for positions '' @
        ''outside of LARGE, MEDIUM, SMALL, ROBOT_LOAD.'')) \<and>
   ap_z_motor_done_move test_env"
proof -
  have moving: "\<not> ap_z_motor_done_move (test_env\<lparr>ap_z_motor_done_move := False\<rparr>)"
    by simp
  have "double_ne float_0 float_7"
    by (simp add: double_defs float_defs)
  then have raised: "fst (safe_move_within_datacollection_range test_env float_1 float_20
      float_7 float_5 float_6 test_aperture_scatterguard) =
     Raised (InvalidApertureMove
       (''ApertureScatterguard safe move is not yet defined for positions '' @
        ''outside of LARGE, MEDIUM, SMALL, ROBOT_LOAD.''))"
    by (simp add: safe_move_within_datacollection_range_def test_env_def raise_def)
  from moving raised
    safe_move_noop_while_z_moving [of "test_env\<lparr>ap_z_motor_done_move := False\<rparr>"
      float_1 float_20 float_0 float_5 float_6 test_aperture_scatterguard]
    safe_move_noop_while_z_moving [of test_env float_1 float_20 float_7 float_5 float_6
      test_aperture_scatterguard]
  show ?thesis by blast
qed

lemma tuple_eq_refl: "tuple_eq a a"
  by (cases a) (simp add: tuple_eq_def same_or_equal_def)

lemma position_valid_iff:
  "position_valid ps pos \<longleftrightarrow>
     tuple_eq (LARGE ps) pos \<or> tuple_eq (MEDIUM ps) pos \<or>
     tuple_eq (SMALL ps) pos \<or> tuple_eq (ROBOT_LOAD ps) pos"
  by (simp add: position_valid_def)

text \<open>
  Claim C2, as stated, fails: the membership test compares with \<^verbatim>\<open>==\<close>, not bit by
  bit. The target \<^verbatim>\<open>(4.0, -0.0, -0.0, 11.0, 12.0)\<close> has bit patterns that differ from
  those of each of the four presets, yet \<^verbatim>\<open>set\<close> raises nothing and moves the motors:
  it returns a composite status and the trace holds five writes.
\<close>

theorem set_moves_to_negative_zero_target:
  "aperture_positions test_aperture_scatterguard = Some test_positions \<and>
   position_bits negative_zero_target \<noteq> position_bits (LARGE test_positions) \<and>
   position_bits negative_zero_target \<noteq> position_bits (MEDIUM test_positions) \<and>
   position_bits negative_zero_target \<noteq> position_bits (SMALL test_positions) \<and>
   position_bits negative_zero_target \<noteq> position_bits (ROBOT_LOAD test_positions) \<and>
   set_ApertureScatterguard test_env negative_zero_target test_aperture_scatterguard =
     (Returned (Some (AndStatus (AndStatus (AndStatus (AndStatus
        (SetStatus ApertureX (VFloat float_4))
        (SetStatus ApertureY (VFloat float_neg_0)))
        (SetStatus ApertureZ (VFloat float_neg_0)))
        (SetStatus ScatterguardX (VFloat float_11)))
        (SetStatus ScatterguardY (VFloat float_12)))),
      test_aperture_scatterguard\<lparr>trace :=
        [SetCall ApertureX (VFloat float_4), SetCall ApertureY (VFloat float_neg_0),
         SetCall ApertureZ (VFloat float_neg_0),
         Waited (AndStatus (AndStatus
            (SetStatus ApertureX (VFloat float_4))
            (SetStatus ApertureY (VFloat float_neg_0)))
            (SetStatus ApertureZ (VFloat float_neg_0))) None,
         SetCall ScatterguardX (VFloat float_11), SetCall ScatterguardY (VFloat float_12)]\<rparr>)"
proof -
  have bits: "position_bits negative_zero_target \<noteq> position_bits (LARGE test_positions)"
    "position_bits negative_zero_target \<noteq> position_bits (MEDIUM test_positions)"
    "position_bits negative_zero_target \<noteq> position_bits (SMALL test_positions)"
    "position_bits negative_zero_target \<noteq> position_bits (ROBOT_LOAD test_positions)"
    by (simp_all add: position_bits_def negative_zero_target_def test_positions_def float_defs)
  have zeros: "double_eq float_0 float_neg_0" "double_eq float_4 float_4"
    "double_eq float_11 float_11" "double_eq float_12 float_12"
    by (simp_all add: double_defs float_defs)
  then have valid: "position_valid test_positions negative_zero_target"
    by (simp add: position_valid_iff tuple_eq_def same_or_equal_def negative_zero_target_def
          test_positions_def)
  have z: "\<not> double_ne float_0 float_neg_0" and y: "\<not> double_gt float_neg_0 float_10"
    by (simp_all add: double_defs float_defs)
  have "safe_move_within_datacollection_range test_env float_4 float_neg_0 float_neg_0
      float_11 float_12 test_aperture_scatterguard =
     (Returned (Some (AndStatus (AndStatus (AndStatus (AndStatus
        (SetStatus ApertureX (VFloat float_4))
        (SetStatus ApertureY (VFloat float_neg_0)))
        (SetStatus ApertureZ (VFloat float_neg_0)))
        (SetStatus ScatterguardX (VFloat float_11)))
        (SetStatus ScatterguardY (VFloat float_12)))),
      test_aperture_scatterguard\<lparr>trace :=
        [SetCall ApertureX (VFloat float_4), SetCall ApertureY (VFloat float_neg_0),
         SetCall ApertureZ (VFloat float_neg_0),
         Waited (AndStatus (AndStatus
            (SetStatus ApertureX (VFloat float_4))
            (SetStatus ApertureY (VFloat float_neg_0)))
            (SetStatus ApertureZ (VFloat float_neg_0))) None,
         SetCall ScatterguardX (VFloat float_11), SetCall ScatterguardY (VFloat float_12)]\<rparr>)"
    using z y
    by (simp add: safe_move_within_datacollection_range_def action_defs Let_def test_env_def
          test_aperture_scatterguard_def)
  with valid bits show ?thesis
    by (simp add: set_ApertureScatterguard_def test_aperture_scatterguard_def
          negative_zero_target_def)
qed

text \<open>
  Claim C2, amended. When no preset table is loaded, or when the target is unequal to
  each of the four loaded presets under Python's tuple equality (componentwise: the same
  object, or values that are \<^verbatim>\<open>==\<close> as floats, so that \<^verbatim>\<open>-0.0\<close> equals \<^verbatim>\<open>0.0\<close>
  and a NaN equals no other object), \<^verbatim>\<open>set\<close> raises \<^verbatim>\<open>InvalidApertureMove\<close> and
  the device, its trace of writes included, is unchanged. For a target equal in that
  sense to one of the presets, and so for each of the four preset tuples themselves,
  \<^verbatim>\<open>set\<close> is the safe move on the five components of the target.
\<close>

theorem set_accepts_targets_equal_to_a_preset:
  "((aperture_positions self = None \<or>
     (\<exists>ps. aperture_positions self = Some ps \<and>
           \<not> tuple_eq (LARGE ps) pos \<and> \<not> tuple_eq (MEDIUM ps) pos \<and>
           \<not> tuple_eq (SMALL ps) pos \<and> \<not> tuple_eq (ROBOT_LOAD ps) pos)) \<longrightarrow>
      set_ApertureScatterguard E pos self =
        (Raised (InvalidApertureMove ''AssertionError()''), self)) \<and>
   (\<forall>ps. aperture_positions self = Some ps \<and>
         (tuple_eq (LARGE ps) pos \<or> tuple_eq (MEDIUM ps) pos \<or>
          tuple_eq (SMALL ps) pos \<or> tuple_eq (ROBOT_LOAD ps) pos \<or>
          pos \<in> {LARGE ps, MEDIUM ps, SMALL ps, ROBOT_LOAD ps}) \<longrightarrow>
      set_ApertureScatterguard E pos self =
        (case pos of (aperture_x, aperture_y, aperture_z, scatterguard_x, scatterguard_y) \<Rightarrow>
           safe_move_within_datacollection_range E (bits aperture_x) (bits aperture_y)
             (bits aperture_z) (bits scatterguard_x) (bits scatterguard_y) self))"
proof (intro conjI impI allI)
  assume "aperture_positions self = None \<or>
     (\<exists>ps. aperture_positions self = Some ps \<and>
           \<not> tuple_eq (LARGE ps) pos \<and> \<not> tuple_eq (MEDIUM ps) pos \<and>
           \<not> tuple_eq (SMALL ps) pos \<and> \<not> tuple_eq (ROBOT_LOAD ps) pos)"
  then show "set_ApertureScatterguard E pos self =
        (Raised (InvalidApertureMove ''AssertionError()''), self)"
    by (auto simp: set_ApertureScatterguard_def position_valid_iff raise_def)
next
  fix ps
  assume a: "aperture_positions self = Some ps \<and>
         (tuple_eq (LARGE ps) pos \<or> tuple_eq (MEDIUM ps) pos \<or>
          tuple_eq (SMALL ps) pos \<or> tuple_eq (ROBOT_LOAD ps) pos \<or>
          pos \<in> {LARGE ps, MEDIUM ps, SMALL ps, ROBOT_LOAD ps})"
  then have "position_valid ps pos"
    using tuple_eq_refl [of pos] by (auto simp: position_valid_iff)
  with a show "set_ApertureScatterguard E pos self =
        (case pos of (aperture_x, aperture_y, aperture_z, scatterguard_x, scatterguard_y) \<Rightarrow>
           safe_move_within_datacollection_range E (bits aperture_x) (bits aperture_y)
             (bits aperture_z) (bits scatterguard_x) (bits scatterguard_y) self)"
    by (simp add: set_ApertureScatterguard_def)
qed

theorem set_accepts_targets_equal_to_a_preset_witness:
  "set_ApertureScatterguard test_env off_preset_target test_aperture_scatterguard =
      (Raised (InvalidApertureMove ''AssertionError()''), test_aperture_scatterguard) \<and>
   set_ApertureScatterguard test_env large_target
       (test_aperture_scatterguard\<lparr>aperture_positions := None\<rparr>) =
      (Raised (InvalidApertureMove ''AssertionError()''),
       test_aperture_scatterguard\<lparr>aperture_positions := None\<rparr>) \<and>
   set_ApertureScatterguard test_env large_target test_aperture_scatterguard =
     safe_move_within_datacollection_range test_env float_1 float_20 float_0 float_5 float_6
       test_aperture_scatterguard \<and>
   set_ApertureScatterguard test_env (ROBOT_LOAD test_positions) test_aperture_scatterguard =
     safe_move_within_datacollection_range test_env float_4 float_0 float_0 float_11 float_12
       test_aperture_scatterguard"
proof -
  have ps: "aperture_positions test_aperture_scatterguard = Some test_positions"
    by (simp add: test_aperture_scatterguard_def)
  have ne: "\<not> double_eq float_6 float_7" "\<not> double_eq float_8 float_7"
    "\<not> double_eq float_10 float_7" "\<not> double_eq float_12 float_7"
    by (simp_all add: double_defs float_defs)
  then have off: "\<not> tuple_eq (LARGE test_positions) off_preset_target"
    "\<not> tuple_eq (MEDIUM test_positions) off_preset_target"
    "\<not> tuple_eq (SMALL test_positions) off_preset_target"
    "\<not> tuple_eq (ROBOT_LOAD test_positions) off_preset_target"
    by (simp_all add: tuple_eq_def same_or_equal_def test_positions_def off_preset_target_def)
  have eq: "double_eq float_1 float_1" "double_eq float_20 float_20" "double_eq float_0 float_0"
    "double_eq float_5 float_5" "double_eq float_6 float_6"
    by (simp_all add: double_defs float_defs)
  then have large: "tuple_eq (LARGE test_positions) large_target"
    by (simp add: tuple_eq_def same_or_equal_def test_positions_def large_target_def)
  from ps off large
    set_accepts_targets_equal_to_a_preset [of test_aperture_scatterguard off_preset_target test_env]
    set_accepts_targets_equal_to_a_preset
      [of "test_aperture_scatterguard\<lparr>aperture_positions := None\<rparr>" large_target test_env]
    set_accepts_targets_equal_to_a_preset [of test_aperture_scatterguard large_target test_env]
    set_accepts_targets_equal_to_a_preset
      [of test_aperture_scatterguard "ROBOT_LOAD test_positions" test_env]
  show ?thesis
    by (simp add: large_target_def test_positions_def)
qed

text \<open>
  Claim C1. For a safe move that passes both checks (z motion-complete, commanded z equal
  to the requested z), the events \<open>new\<close> that the call adds to the trace are ordered in
  two phases. If the requested aperture y is greater than the current one, both
  scatterguard writes come before the return of the wait on their composite, and that
  return comes before any write to aperture x, y or z. Otherwise the three aperture
  writes come before the return of the wait on their composite, which comes before any
  scatterguard write. When the call returns, the trace holds exactly the first phase's
  writes, the completed wait, and the second phase's writes, in this order. The two
  float comparisons are those of the code: z passes when \<^verbatim>\<open>!=\<close> is false, and the
  second case is the one in which \<^verbatim>\<open>>\<close> is false.
\<close>

theorem safe_move_two_phase_barrier:
  assumes "ap_z_motor_done_move E" and "\<not> double_ne (ap_z_user_setpoint E) az"
    and "safe_move_within_datacollection_range E ax ay az sx sy self = (r, self')"
  shows "\<exists>new. trace self' = trace self @ new \<and>
    (let sg = AndStatus (SetStatus ScatterguardX (VFloat sx)) (SetStatus ScatterguardY (VFloat sy));
         ap = AndStatus (AndStatus (SetStatus ApertureX (VFloat ax)) (SetStatus ApertureY (VFloat ay)))
                (SetStatus ApertureZ (VFloat az))
     in (double_gt ay (ap_y_user_readback E) \<longrightarrow>
           precedes new (SetCall ScatterguardX (VFloat sx)) (Waited sg None) \<and>
           precedes new (SetCall ScatterguardY (VFloat sy)) (Waited sg None) \<and>
           (\<forall>v. precedes new (Waited sg None) (SetCall ApertureX v) \<and>
                precedes new (Waited sg None) (SetCall ApertureY v) \<and>
                precedes new (Waited sg None) (SetCall ApertureZ v)) \<and>
           (\<forall>st. r = Returned st \<longrightarrow>
              new = [SetCall ScatterguardX (VFloat sx), SetCall ScatterguardY (VFloat sy),
                     Waited sg None, SetCall ApertureX (VFloat ax),
                     SetCall ApertureY (VFloat ay), SetCall ApertureZ (VFloat az)])) \<and>
        (\<not> double_gt ay (ap_y_user_readback E) \<longrightarrow>
           precedes new (SetCall ApertureX (VFloat ax)) (Waited ap None) \<and>
           precedes new (SetCall ApertureY (VFloat ay)) (Waited ap None) \<and>
           precedes new (SetCall ApertureZ (VFloat az)) (Waited ap None) \<and>
           (\<forall>v. precedes new (Waited ap None) (SetCall ScatterguardX v) \<and>
                precedes new (Waited ap None) (SetCall ScatterguardY v)) \<and>
           (\<forall>st. r = Returned st \<longrightarrow>
              new = [SetCall ApertureX (VFloat ax), SetCall ApertureY (VFloat ay),
                     SetCall ApertureZ (VFloat az), Waited ap None,
                     SetCall ScatterguardX (VFloat sx), SetCall ScatterguardY (VFloat sy)])))"
proof (cases "double_gt ay (ap_y_user_readback E)")
  case True
  with assms show ?thesis
    by (auto simp: safe_move_within_datacollection_range_def action_defs Let_def
          precedes_Nil precedes_Cons split: wait_outcome.splits)
next
  case False
  with assms show ?thesis
    by (auto simp: safe_move_within_datacollection_range_def action_defs Let_def
          precedes_Nil precedes_Cons split: wait_outcome.splits)
qed

theorem safe_move_two_phase_barrier_witness:
  "ap_z_motor_done_move test_env \<and> \<not> double_ne (ap_z_user_setpoint test_env) float_0 \<and>
   double_gt float_20 (ap_y_user_readback test_env) \<and>
   trace (snd (safe_move_within_datacollection_range test_env float_1 float_20 float_0
      float_5 float_6 test_aperture_scatterguard)) =
     [SetCall ScatterguardX (VFloat float_5), SetCall ScatterguardY (VFloat float_6),
      Waited (AndStatus (SetStatus ScatterguardX (VFloat float_5))
                (SetStatus ScatterguardY (VFloat float_6))) None,
      SetCall ApertureX (VFloat float_1), SetCall ApertureY (VFloat float_20),
      SetCall ApertureZ (VFloat float_0)] \<and>
   \<not> double_gt float_5 (ap_y_user_readback test_env) \<and>
   trace (snd (safe_move_within_datacollection_range test_env float_3 float_5 float_0
      float_9 float_10 test_aperture_scatterguard)) =
     [SetCall ApertureX (VFloat float_3), SetCall ApertureY (VFloat float_5),
      SetCall ApertureZ (VFloat float_0),
      Waited (AndStatus (AndStatus (SetStatus ApertureX (VFloat float_3))
                (SetStatus ApertureY (VFloat float_5)))
                (SetStatus ApertureZ (VFloat float_0))) None,
      SetCall ScatterguardX (VFloat float_9), SetCall ScatterguardY (VFloat float_10)]"
proof -
  have h1: "ap_z_motor_done_move test_env"
    by (simp add: test_env_def)
  have "\<not> double_ne float_0 float_0"
    by (simp add: double_defs float_defs)
  then have h2: "\<not> double_ne (ap_z_user_setpoint test_env) float_0"
    by (simp add: test_env_def)
  have "double_gt float_20 float_10" "\<not> double_gt float_5 float_10"
    by (simp_all add: double_defs float_defs)
  then have y: "double_gt float_20 (ap_y_user_readback test_env)"
    "\<not> double_gt float_5 (ap_y_user_readback test_env)"
    by (simp_all add: test_env_def)
  obtain r1 s1 where run1: "safe_move_within_datacollection_range test_env float_1 float_20
      float_0 float_5 float_6 test_aperture_scatterguard = (r1, s1)"
    by (cases "safe_move_within_datacollection_range test_env float_1 float_20
      float_0 float_5 float_6 test_aperture_scatterguard")
  obtain r2 s2 where run2: "safe_move_within_datacollection_range test_env float_3 float_5
      float_0 float_9 float_10 test_aperture_scatterguard = (r2, s2)"
    by (cases "safe_move_within_datacollection_range test_env float_3 float_5
      float_0 float_9 float_10 test_aperture_scatterguard")
  have w: "wait_ends test_env = (\<lambda>_ _. WaitReturns)"
    by (simp add: test_env_def)
  have ret: "\<exists>st. r1 = Returned st" "\<exists>st. r2 = Returned st"
    using run1 run2 h1 h2 y w
    by (auto simp: safe_move_within_datacollection_range_def action_defs Let_def)
  have t0: "trace test_aperture_scatterguard = []"
    by (simp add: test_aperture_scatterguard_def)
  from safe_move_two_phase_barrier [OF h1 h2 run1] y t0 ret
  have "trace s1 = [SetCall ScatterguardX (VFloat float_5), SetCall ScatterguardY (VFloat float_6),
      Waited (AndStatus (SetStatus ScatterguardX (VFloat float_5))
                (SetStatus ScatterguardY (VFloat float_6))) None,
      SetCall ApertureX (VFloat float_1), SetCall ApertureY (VFloat float_20),
      SetCall ApertureZ (VFloat float_0)]"
    by (auto simp: Let_def)
  moreover
  from safe_move_two_phase_barrier [OF h1 h2 run2] y t0 ret
  have "trace s2 = [SetCall ApertureX (VFloat float_3), SetCall ApertureY (VFloat float_5),
      SetCall ApertureZ (VFloat float_0),
      Waited (AndStatus (AndStatus (SetStatus ApertureX (VFloat float_3))
                (SetStatus ApertureY (VFloat float_5)))
                (SetStatus ApertureZ (VFloat float_0))) None,
      SetCall ScatterguardX (VFloat float_9), SetCall ScatterguardY (VFloat float_10)]"
    by (auto simp: Let_def)
  ultimately show ?thesis using h1 h2 y run1 run2 by simp
qed

section \<open>EigerDetector: parameters and counts\<close>

lemma join_lines_simps:
  "join_lines [] = []" "join_lines [a] = a" "join_lines [a, b] = a @ [CHR 0x0A] @ b"
  by (simp_all add: join_lines_def)

text \<open>
  Claim C5. \<^verbatim>\<open>set_detector_parameters\<close> collects every failed check into one fault
  message. With both \<^verbatim>\<open>detector_size_constants\<close> and \<^verbatim>\<open>beam_xy_converter\<close>
  missing the message has exactly two lines, with exactly one of them missing it has
  exactly one line, and with neither missing the call returns without a fault. In every
  case the trace is unchanged: no hardware write is issued.
\<close>

theorem set_detector_parameters_aggregates:
  "(detector_size_constants p = None \<and> beam_xy_converter p = None \<longrightarrow>
      (\<exists>msg. fst (set_detector_parameters (Some p) self) = Raised (Exception msg) \<and>
             number_of_lines msg = 2)) \<and>
   ((detector_size_constants p = None) \<noteq> (beam_xy_converter p = None) \<longrightarrow>
      (\<exists>msg. fst (set_detector_parameters (Some p) self) = Raised (Exception msg) \<and>
             number_of_lines msg = 1)) \<and>
   (detector_size_constants p \<noteq> None \<and> beam_xy_converter p \<noteq> None \<longrightarrow>
      fst (set_detector_parameters (Some p) self) = Returned ()) \<and>
   trace (snd (set_detector_parameters (Some p) self)) = trace self"
  by (auto simp: set_detector_parameters_def Let_def raise_def return_def join_lines_simps
        number_of_lines_def)

theorem set_detector_parameters_aggregates_witness:
  "fst (set_detector_parameters
      (Some (TEST_DETECTOR_PARAMS\<lparr>detector_size_constants := None, beam_xy_converter := None\<rparr>))
      fake_eiger) =
     Raised (Exception (''Detector Size must be set'' @ [CHR 0x0A] @ ''Beam converter must be set'')) \<and>
   number_of_lines (''Detector Size must be set'' @ [CHR 0x0A] @ ''Beam converter must be set'') = 2 \<and>
   fst (set_detector_parameters (Some (TEST_DETECTOR_PARAMS\<lparr>detector_size_constants := None\<rparr>))
      fake_eiger) = Raised (Exception ''Detector Size must be set'') \<and>
   fst (set_detector_parameters (Some (TEST_DETECTOR_PARAMS\<lparr>beam_xy_converter := None\<rparr>))
      fake_eiger) = Raised (Exception ''Beam converter must be set'') \<and>
   number_of_lines ''Detector Size must be set'' = 1 \<and>
   number_of_lines ''Beam converter must be set'' = 1 \<and>
   fst (set_detector_parameters (Some TEST_DETECTOR_PARAMS) fake_eiger) = Returned ()"
proof -
  have both: "fst (set_detector_parameters
      (Some (TEST_DETECTOR_PARAMS\<lparr>detector_size_constants := None, beam_xy_converter := None\<rparr>))
      fake_eiger) =
     Raised (Exception (''Detector Size must be set'' @ [CHR 0x0A] @ ''Beam converter must be set''))"
    by (simp add: set_detector_parameters_def Let_def raise_def join_lines_simps)
  have size_only: "fst (set_detector_parameters
      (Some (TEST_DETECTOR_PARAMS\<lparr>detector_size_constants := None\<rparr>)) fake_eiger) =
      Raised (Exception ''Detector Size must be set'')"
    by (simp add: set_detector_parameters_def Let_def raise_def join_lines_simps
          TEST_DETECTOR_PARAMS_def)
  have conv_only: "fst (set_detector_parameters
      (Some (TEST_DETECTOR_PARAMS\<lparr>beam_xy_converter := None\<rparr>)) fake_eiger) =
      Raised (Exception ''Beam converter must be set'')"
    by (simp add: set_detector_parameters_def Let_def raise_def join_lines_simps
          TEST_DETECTOR_PARAMS_def)
  from both size_only conv_only
    set_detector_parameters_aggregates
      [of "TEST_DETECTOR_PARAMS\<lparr>detector_size_constants := None, beam_xy_converter := None\<rparr>"
        fake_eiger]
    set_detector_parameters_aggregates
      [of "TEST_DETECTOR_PARAMS\<lparr>detector_size_constants := None\<rparr>" fake_eiger]
    set_detector_parameters_aggregates
      [of "TEST_DETECTOR_PARAMS\<lparr>beam_xy_converter := None\<rparr>" fake_eiger]
    set_detector_parameters_aggregates [of TEST_DETECTOR_PARAMS fake_eiger]
  show ?thesis
    by (simp add: TEST_DETECTOR_PARAMS_def)
qed

text \<open>
  Claim C6, as stated, fails: the supplied parameters are stored before they are
  checked. On a detector holding valid parameters, a call with parameters that lack the
  detector size constants raises the fault and leaves the invalid parameters stored.
\<close>

theorem set_detector_parameters_fault_overwrites_params:
  "fst (set_detector_parameters
      (Some (TEST_DETECTOR_PARAMS\<lparr>detector_size_constants := None\<rparr>)) fake_eiger) =
     Raised (Exception ''Detector Size must be set'') \<and>
   detector_params fake_eiger = Some TEST_DETECTOR_PARAMS \<and>
   detector_params (snd (set_detector_parameters
      (Some (TEST_DETECTOR_PARAMS\<lparr>detector_size_constants := None\<rparr>)) fake_eiger)) =
     Some (TEST_DETECTOR_PARAMS\<lparr>detector_size_constants := None\<rparr>) \<and>
   snd (set_detector_parameters
      (Some (TEST_DETECTOR_PARAMS\<lparr>detector_size_constants := None\<rparr>)) fake_eiger) \<noteq> fake_eiger"
  by (simp add: set_detector_parameters_def Let_def raise_def join_lines_simps
        TEST_DETECTOR_PARAMS_def fake_eiger_def)

text \<open>
  Claim C6, amended. When \<^verbatim>\<open>set_detector_parameters\<close> raises a fault, the stored
  \<^verbatim>\<open>detector_params\<close> have been replaced by the supplied parameters and nothing else
  of the detector has changed: no hardware write is issued and the rest of the controller
  state is as before.
\<close>

theorem set_detector_parameters_fault_state:
  "fst (set_detector_parameters params self) = Raised e \<Longrightarrow>
   snd (set_detector_parameters params self) = self\<lparr>detector_params := params\<rparr>"
  by (auto simp: set_detector_parameters_def Let_def raise_def return_def split: option.splits)

theorem set_detector_parameters_fault_state_witness:
  "fst (set_detector_parameters
      (Some (TEST_DETECTOR_PARAMS\<lparr>beam_xy_converter := None\<rparr>)) fake_eiger) =
     Raised (Exception ''Beam converter must be set'') \<and>
   snd (set_detector_parameters
      (Some (TEST_DETECTOR_PARAMS\<lparr>beam_xy_converter := None\<rparr>)) fake_eiger) =
     fake_eiger\<lparr>detector_params := Some (TEST_DETECTOR_PARAMS\<lparr>beam_xy_converter := None\<rparr>)\<rparr>"
proof -
  have h: "fst (set_detector_parameters
      (Some (TEST_DETECTOR_PARAMS\<lparr>beam_xy_converter := None\<rparr>)) fake_eiger) =
     Raised (Exception ''Beam converter must be set'')"
    by (simp add: set_detector_parameters_def Let_def raise_def join_lines_simps
          TEST_DETECTOR_PARAMS_def)
  show ?thesis using h set_detector_parameters_fault_state [OF h] by simp
qed

lemma set_detector_threshold_branches:
  "set_detector_threshold E energy tolerance self =
     (if double_gt (double_abs (double_sub (photon_energy_value E) energy)) tolerance
      then (Returned (SetStatus CamPhotonEnergy (VFloat energy)),
            self\<lparr>trace := trace self @ [SetCall CamPhotonEnergy (VFloat energy)]\<rparr>)
      else (Returned FinishedStatus, self))"
  by (simp add: set_detector_threshold_def Let_def action_defs)

text \<open>
  Claim C4, as stated, fails at the tolerance boundary, because the difference is rounded
  before it is compared. With a reading of \<^verbatim>\<open>0.1\<close> and a requested energy of
  \<^verbatim>\<open>-2.0 ** -60\<close> the exact distance between the two values is greater than one tenth
  and greater than the double \<^verbatim>\<open>0.1\<close>, but the rounded difference is the double
  \<^verbatim>\<open>0.1\<close> itself: no write is issued.
\<close>

theorem set_detector_threshold_misses_write_at_boundary:
  "\<bar>real_of_double (photon_energy_value low_energy_env) -
      real_of_double float_neg_2_pow_neg_60\<bar> > 0.1 \<and>
   \<bar>real_of_double (photon_energy_value low_energy_env) -
      real_of_double float_neg_2_pow_neg_60\<bar> > real_of_double default_tolerance \<and>
   set_detector_threshold low_energy_env float_neg_2_pow_neg_60 default_tolerance fake_eiger =
     (Returned FinishedStatus, fake_eiger)"
proof -
  have exact: "\<bar>real_of_double float_0_1 - real_of_double float_neg_2_pow_neg_60\<bar> > 0.1"
    "\<bar>real_of_double float_0_1 - real_of_double float_neg_2_pow_neg_60\<bar> >
       real_of_double default_tolerance"
    by (simp_all add: real_of_double_def double_defs float_defs default_tolerance_def)
  have "double_sub float_0_1 float_neg_2_pow_neg_60 = float_0_1"
    by (simp add: double_defs float_defs)
  moreover have "double_abs float_0_1 = float_0_1"
    by (simp add: double_defs float_defs)
  moreover have "\<not> double_gt float_0_1 default_tolerance"
    by (simp add: double_defs float_defs default_tolerance_def)
  ultimately have "set_detector_threshold low_energy_env float_neg_2_pow_neg_60
      default_tolerance fake_eiger = (Returned FinishedStatus, fake_eiger)"
    by (simp add: set_detector_threshold_branches low_energy_env_def)
  with exact show ?thesis
    by (simp add: low_energy_env_def)
qed

text \<open>
  Claim C4, amended. \<^verbatim>\<open>set_detector_threshold\<close> decides on the double-precision value
  of \<^verbatim>\<open>abs(current - energy)\<close>: the difference of the reading and the requested energy
  rounded to the nearest double, without its sign. When that value is not greater than
  the tolerance (by default the double nearest to 0.1), which includes a reading or a
  request that is NaN, no write is issued, the device is unchanged, and the status
  returned is already finished and successful in every environment. When that value is
  greater than the tolerance, exactly one write of the requested energy is issued and its
  status returned.
\<close>

theorem set_detector_threshold_tolerance:
  "(\<not> double_gt (double_abs (double_sub (photon_energy_value E) energy)) default_tolerance \<longrightarrow>
      set_detector_threshold E energy default_tolerance self = (Returned FinishedStatus, self) \<and>
      (\<forall>E' timeout. success E' FinishedStatus \<and>
         wait_outcome_of E' FinishedStatus timeout = WaitReturns)) \<and>
   (double_gt (double_abs (double_sub (photon_energy_value E) energy)) default_tolerance \<longrightarrow>
      set_detector_threshold E energy default_tolerance self =
        (Returned (SetStatus CamPhotonEnergy (VFloat energy)),
         self\<lparr>trace := trace self @ [SetCall CamPhotonEnergy (VFloat energy)]\<rparr>))"
  by (simp add: set_detector_threshold_branches success_def wait_outcome_of_def)

theorem set_detector_threshold_tolerance_witness:
  "double_abs (double_sub (photon_energy_value test_env) float_100_09) = 0x3FB70A3D70A3D800 \<and>
   \<not> double_gt 0x3FB70A3D70A3D800 default_tolerance \<and>
   set_detector_threshold test_env float_100_09 default_tolerance fake_eiger =
     (Returned FinishedStatus, fake_eiger) \<and>
   double_abs (double_sub (photon_energy_value test_env) float_200) = float_100 \<and>
   double_gt float_100 default_tolerance \<and>
   set_detector_threshold test_env float_200 default_tolerance fake_eiger =
     (Returned (SetStatus CamPhotonEnergy (VFloat float_200)),
      fake_eiger\<lparr>trace := trace fake_eiger @ [SetCall CamPhotonEnergy (VFloat float_200)]\<rparr>)"
proof -
  have "double_sub float_100 float_100_09 = 0xBFB70A3D70A3D800"
    by (simp add: double_defs float_defs)
  moreover have "double_abs 0xBFB70A3D70A3D800 = 0x3FB70A3D70A3D800"
    by (simp add: double_defs)
  ultimately have near: "double_abs (double_sub (photon_energy_value test_env) float_100_09) =
      0x3FB70A3D70A3D800"
    by (simp add: test_env_def)
  have near_le: "\<not> double_gt 0x3FB70A3D70A3D800 default_tolerance"
    by (simp add: double_defs default_tolerance_def)
  have "double_sub float_100 float_200 = 0xC059000000000000"
    by (simp add: double_defs float_defs)
  moreover have "double_abs 0xC059000000000000 = float_100"
    by (simp add: double_defs float_defs)
  ultimately have far: "double_abs (double_sub (photon_energy_value test_env) float_200) =
      float_100"
    by (simp add: test_env_def)
  have far_gt: "double_gt float_100 default_tolerance"
    by (simp add: double_defs float_defs default_tolerance_def)
  from near near_le far far_gt
    set_detector_threshold_tolerance [of test_env float_100_09 fake_eiger]
    set_detector_threshold_tolerance [of test_env float_200 fake_eiger]
  show ?thesis by simp
qed

text \<open>
  Claim C3. With parameters stored, \<^verbatim>\<open>set_num_triggers_and_captures\<close> in FREE_RUN
  mode sets the camera trigger count to 1,000,000 and the writer capture count to 0,
  whatever the image and trigger counts of the parameters are; in SET_FRAMES mode it sets
  the camera trigger count to \<^verbatim>\<open>num_triggers\<close> and the writer capture count to
  \<^verbatim>\<open>num_triggers * num_images_per_trigger\<close>.
\<close>

theorem set_num_triggers_and_captures_counts:
  assumes "detector_params self = Some p"
  shows "(trigger_mode p = FREE_RUN \<longrightarrow>
            set_num_triggers_and_captures self =
              (Returned (AndStatus (AndStatus
                   (SetStatus CamNumImages (VInt (num_images_per_trigger p)))
                   (SetStatus CamNumTriggers (VInt 1000000)))
                   (SetStatus OdinNumCapture (VInt 0))),
               self\<lparr>trace := trace self @
                  [SetCall CamNumImages (VInt (num_images_per_trigger p)),
                   SetCall CamNumTriggers (VInt 1000000),
                   SetCall OdinNumCapture (VInt 0)]\<rparr>)) \<and>
         (trigger_mode p = SET_FRAMES \<longrightarrow>
            set_num_triggers_and_captures self =
              (Returned (AndStatus (AndStatus
                   (SetStatus CamNumImages (VInt (num_images_per_trigger p)))
                   (SetStatus CamNumTriggers (VInt (num_triggers p))))
                   (SetStatus OdinNumCapture (VInt (num_triggers p * num_images_per_trigger p)))),
               self\<lparr>trace := trace self @
                  [SetCall CamNumImages (VInt (num_images_per_trigger p)),
                   SetCall CamNumTriggers (VInt (num_triggers p)),
                   SetCall OdinNumCapture (VInt (num_triggers p * num_images_per_trigger p))]\<rparr>))"
  using assms
  by (simp add: set_num_triggers_and_captures_def assert_detector_params_def action_defs
        FREE_RUN_MAX_IMAGES_def full_number_of_images_def)

theorem set_num_triggers_and_captures_counts_witness:
  "detector_params fake_eiger = Some TEST_DETECTOR_PARAMS \<and>
   trigger_mode TEST_DETECTOR_PARAMS = SET_FRAMES \<and>
   num_triggers TEST_DETECTOR_PARAMS = 3 \<and> num_images_per_trigger TEST_DETECTOR_PARAMS = 3 \<and>
   trace (snd (set_num_triggers_and_captures fake_eiger)) =
     [SetCall CamNumImages (VInt 3), SetCall CamNumTriggers (VInt 3),
      SetCall OdinNumCapture (VInt 9)] \<and>
   trace (snd (set_num_triggers_and_captures
      (fake_eiger\<lparr>detector_params := Some (TEST_DETECTOR_PARAMS\<lparr>trigger_mode := FREE_RUN\<rparr>)\<rparr>))) =
     [SetCall CamNumImages (VInt 3), SetCall CamNumTriggers (VInt 1000000),
      SetCall OdinNumCapture (VInt 0)]"
proof -
  have h1: "detector_params fake_eiger = Some TEST_DETECTOR_PARAMS"
    by (simp add: fake_eiger_def)
  have h2: "detector_params
      (fake_eiger\<lparr>detector_params := Some (TEST_DETECTOR_PARAMS\<lparr>trigger_mode := FREE_RUN\<rparr>)\<rparr>) =
      Some (TEST_DETECTOR_PARAMS\<lparr>trigger_mode := FREE_RUN\<rparr>)"
    by simp
  from h1 set_num_triggers_and_captures_counts [OF h1] set_num_triggers_and_captures_counts [OF h2]
  show ?thesis
    by (simp add: TEST_DETECTOR_PARAMS_def fake_eiger_def)
qed

text \<open>
  Claim C9. In either trigger mode, FREE_RUN included, the first write of
  \<^verbatim>\<open>set_num_triggers_and_captures\<close> is the camera's image count, set to
  \<^verbatim>\<open>num_images_per_trigger\<close>; the writes that follow it do not touch the image count.
\<close>

theorem num_images_written_before_branch:
  assumes "detector_params self = Some p"
  shows "\<exists>st rest. set_num_triggers_and_captures self =
           (Returned st,
            self\<lparr>trace := trace self @ SetCall CamNumImages (VInt (num_images_per_trigger p)) # rest\<rparr>) \<and>
           (\<forall>v. SetCall CamNumImages v \<notin> set rest)"
proof (cases "trigger_mode p")
  case FREE_RUN
  with assms show ?thesis
    by (intro exI [of _ "AndStatus (AndStatus
                   (SetStatus CamNumImages (VInt (num_images_per_trigger p)))
                   (SetStatus CamNumTriggers (VInt FREE_RUN_MAX_IMAGES)))
                   (SetStatus OdinNumCapture (VInt 0))"]
          exI [of _ "[SetCall CamNumTriggers (VInt FREE_RUN_MAX_IMAGES),
                   SetCall OdinNumCapture (VInt 0)]"])
       (simp add: set_num_triggers_and_captures_def assert_detector_params_def action_defs)
next
  case SET_FRAMES
  with assms show ?thesis
    by (intro exI [of _ "AndStatus (AndStatus
                   (SetStatus CamNumImages (VInt (num_images_per_trigger p)))
                   (SetStatus CamNumTriggers (VInt (num_triggers p))))
                   (SetStatus OdinNumCapture (VInt (full_number_of_images p)))"]
          exI [of _ "[SetCall CamNumTriggers (VInt (num_triggers p)),
                   SetCall OdinNumCapture (VInt (full_number_of_images p))]"])
       (simp add: set_num_triggers_and_captures_def assert_detector_params_def action_defs)
qed

theorem num_images_written_before_branch_witness:
  "trigger_mode (TEST_DETECTOR_PARAMS\<lparr>trigger_mode := FREE_RUN\<rparr>) = FREE_RUN \<and>
   (\<exists>rest. trace (snd (set_num_triggers_and_captures
      (fake_eiger\<lparr>detector_params := Some (TEST_DETECTOR_PARAMS\<lparr>trigger_mode := FREE_RUN\<rparr>)\<rparr>))) =
     SetCall CamNumImages (VInt 3) # rest)"
proof -
  have h: "detector_params
      (fake_eiger\<lparr>detector_params := Some (TEST_DETECTOR_PARAMS\<lparr>trigger_mode := FREE_RUN\<rparr>)\<rparr>) =
      Some (TEST_DETECTOR_PARAMS\<lparr>trigger_mode := FREE_RUN\<rparr>)"
    by simp
  from num_images_written_before_branch [OF h]
  show ?thesis
    by (auto simp: TEST_DETECTOR_PARAMS_def fake_eiger_def)
qed

section \<open>EigerDetector: unstage and stage\<close>

lemma keeps_change_roi_mode: "keeps_params p (change_roi_mode E enable)"
  unfolding change_roi_mode_def Let_def
  by (auto intro!: keeps_intros keeps_raise split: option.split)

lemma keeps_filewriters_finished:
  "keeps_params p (\<lambda>self. case filewriters_finished self of
                    None \<Rightarrow> raise AttributeError self
                  | Some finished \<Rightarrow> return finished self)"
  by (simp add: keeps_params_def raise_def return_def split: option.split)

text \<open>
  Claim C8 says that a failed ROI switch is only logged and that staging goes on. The two
  lemmas that follow describe \<^verbatim>\<open>change_roi_mode\<close>: when the wait on the composite of
  the five writes raises, the fault leaves \<^verbatim>\<open>change_roi_mode\<close> before the success flag
  is looked at; the error is logged only when the wait returns and the status does not
  report success. A fault that leaves \<^verbatim>\<open>enable_roi_mode\<close> leaves \<^verbatim>\<open>stage\<close> too.
\<close>

lemma change_roi_mode_wait_raises:
  assumes "detector_params self = Some p" and "detector_size_constants p = Some c"
    and "wait_ends E
           (AndStatus (AndStatus (AndStatus (AndStatus
              (SetStatus CamRoiMode (VInt (if enable then 1 else 0)))
              (SetStatus OdinImageHeight (VInt (height (if enable then roi_size_pixels c else det_size_pixels c)))))
              (SetStatus OdinImageWidth (VInt (width (if enable then roi_size_pixels c else det_size_pixels c)))))
              (SetStatus OdinNumRowChunks (VInt (height (if enable then roi_size_pixels c else det_size_pixels c)))))
              (SetStatus OdinNumColChunks (VInt (width (if enable then roi_size_pixels c else det_size_pixels c)))))
           (Some 10) = WaitRaises"
  shows "change_roi_mode E enable self =
    (Raised StatusFailure,
     self\<lparr>trace := trace self @
       [SetCall CamRoiMode (VInt (if enable then 1 else 0)),
        SetCall OdinImageHeight (VInt (height (if enable then roi_size_pixels c else det_size_pixels c))),
        SetCall OdinImageWidth (VInt (width (if enable then roi_size_pixels c else det_size_pixels c))),
        SetCall OdinNumRowChunks (VInt (height (if enable then roi_size_pixels c else det_size_pixels c))),
        SetCall OdinNumColChunks (VInt (width (if enable then roi_size_pixels c else det_size_pixels c)))]\<rparr>)"
  using assms
  by (cases enable)
     (simp_all add: change_roi_mode_def assert_detector_params_def action_defs Let_def)

lemma change_roi_mode_wait_returns:
  assumes "detector_params self = Some p" and "detector_size_constants p = Some c"
    and "wait_ends E
           (AndStatus (AndStatus (AndStatus (AndStatus
              (SetStatus CamRoiMode (VInt (if enable then 1 else 0)))
              (SetStatus OdinImageHeight (VInt (height (if enable then roi_size_pixels c else det_size_pixels c)))))
              (SetStatus OdinImageWidth (VInt (width (if enable then roi_size_pixels c else det_size_pixels c)))))
              (SetStatus OdinNumRowChunks (VInt (height (if enable then roi_size_pixels c else det_size_pixels c)))))
              (SetStatus OdinNumColChunks (VInt (width (if enable then roi_size_pixels c else det_size_pixels c)))))
           (Some 10) = WaitReturns"
  shows "\<exists>new. change_roi_mode E enable self = (Returned (), self\<lparr>trace := trace self @ new\<rparr>) \<and>
     (LogError ''Failed to switch to ROI mode'' \<in> set new \<longleftrightarrow>
        \<not> success E
           (AndStatus (AndStatus (AndStatus (AndStatus
              (SetStatus CamRoiMode (VInt (if enable then 1 else 0)))
              (SetStatus OdinImageHeight (VInt (height (if enable then roi_size_pixels c else det_size_pixels c)))))
              (SetStatus OdinImageWidth (VInt (width (if enable then roi_size_pixels c else det_size_pixels c)))))
              (SetStatus OdinNumRowChunks (VInt (height (if enable then roi_size_pixels c else det_size_pixels c)))))
              (SetStatus OdinNumColChunks (VInt (width (if enable then roi_size_pixels c else det_size_pixels c))))))"
  using assms
  by (cases enable)
     (auto simp: change_roi_mode_def assert_detector_params_def action_defs Let_def)

lemma stage_aborts_when_roi_wait_raises:
  assumes "fst (odin_initialised E)" and "detector_params self = Some p" and "use_roi_mode p"
    and "enable_roi_mode E (self\<lparr>trace := trace self @ [ClearOdinErrors]\<rparr>) = (Raised e, self')"
  shows "stage E self = (Raised e, self')"
  using assms
  by (cases "odin_initialised E")
     (simp add: stage_def thn_def bind_def emit_def return_def)

lemma keeps_unstage: "keeps_params p (unstage E)"
  unfolding unstage_def Let_def disable_roi_mode_def odin_stop_def disarm_detector_def
  by (auto intro!: keeps_intros keeps_change_roi_mode keeps_filewriters_finished)

lemma keeps_set_detector_threshold: "keeps_params p (set_detector_threshold E energy tolerance)"
  unfolding set_detector_threshold_def Let_def
  by (auto intro!: keeps_intros)

lemma keeps_set_cam_pvs: "keeps_params p set_cam_pvs"
  unfolding set_cam_pvs_def
  by (auto intro!: keeps_intros)

lemma keeps_set_odin_pvs: "keeps_params p (set_odin_pvs E)"
  unfolding set_odin_pvs_def Let_def
  by (auto intro!: keeps_intros)

lemma keeps_get_beam_position_pixels: "keeps_params p (get_beam_position_pixels q distance)"
  unfolding get_beam_position_pixels_def
  by (auto intro!: keeps_intros keeps_raise split: option.split)

lemma keeps_set_mx_settings_pvs: "keeps_params p set_mx_settings_pvs"
  unfolding set_mx_settings_pvs_def
  by (auto intro!: keeps_intros keeps_get_beam_position_pixels simp: split_def)

lemma keeps_set_num_triggers_and_captures: "keeps_params p set_num_triggers_and_captures"
  unfolding set_num_triggers_and_captures_def
  by (auto intro!: keeps_intros)

lemma keeps_store_filewriters_finished:
  "keeps_params p (\<lambda>self. (Returned (), self\<lparr>filewriters_finished := Some finished\<rparr>))"
  by (simp add: keeps_params_def)

lemma keeps_arm_detector: "keeps_params p (arm_detector E)"
  unfolding arm_detector_def Let_def wait_for_stale_parameters_def
    forward_bit_depth_to_filewriter_def create_finished_status_def
  by (auto intro!: keeps_intros keeps_store_filewriters_finished)

lemma keeps_read_detector_params:
  "keeps_params p (\<lambda>self. case detector_params self of
                      None \<Rightarrow> raise AttributeError self
                    | Some p \<Rightarrow> return p self)"
  by (simp add: keeps_params_def raise_def return_def split: option.split)

lemma keeps_stage: "keeps_params p (stage E)"
proof (cases "odin_initialised E")
  case (Pair status_ok error_message)
  then show ?thesis
    unfolding stage_def Let_def enable_roi_mode_def
    by (auto intro!: keeps_intros keeps_raise keeps_read_detector_params keeps_change_roi_mode
          keeps_set_detector_threshold keeps_set_cam_pvs keeps_set_odin_pvs
          keeps_set_mx_settings_pvs keeps_set_num_triggers_and_captures keeps_arm_detector)
qed

lemma set_detector_parameters_stores:
  "snd (set_detector_parameters params self) = self\<lparr>detector_params := params\<rparr>"
  by (auto simp: set_detector_parameters_def Let_def raise_def return_def split: option.splits)

lemma set_detector_parameters_returns:
  "set_detector_parameters params self0 = (Returned (), self) \<Longrightarrow>
   \<exists>p. detector_params self = Some p"
  by (auto simp: set_detector_parameters_def Let_def raise_def return_def
        split: option.splits if_splits)

lemma run_call_keeps_params_stored:
  assumes "detector_params self \<noteq> None" and "c \<noteq> SetDetectorParameters None"
  shows "detector_params (snd (run_call E c self)) \<noteq> None"
proof -
  from assms(1) obtain p where p: "detector_params self = Some p" by auto
  show ?thesis
  proof (cases c)
    case (SetDetectorParameters params)
    with assms(2) show ?thesis
      by (simp add: set_detector_parameters_stores)
  next
    case Stage
    with p keeps_stage [of p E] show ?thesis
      by (simp add: keeps_params_def)
  next
    case Unstage
    have "keeps_params p (bind (unstage E) (\<lambda>_. return ()))"
      by (intro keeps_bind keeps_unstage keeps_return)
    with p Unstage show ?thesis
      by (simp add: keeps_params_def)
  qed
qed

lemma after_calls_keeps_params_stored:
  assumes "after_calls calls self = Some self'" and "detector_params self \<noteq> None"
    and "\<forall>(E, c) \<in> set calls. c \<noteq> SetDetectorParameters None"
  shows "detector_params self' \<noteq> None"
  using assms
proof (induction calls arbitrary: self)
  case Nil
  then show ?case by simp
next
  case (Cons step calls)
  obtain E c where step: "step = (E, c)" by (cases step)
  obtain r s where run: "run_call E c self = (r, s)" by (cases "run_call E c self")
  from Cons.prems(2,3) step have "detector_params (snd (run_call E c self)) \<noteq> None"
    by (intro run_call_keeps_params_stored) auto
  with run have s: "detector_params s \<noteq> None" by simp
  from Cons.prems(1) step run have "after_calls calls s = Some self'"
    by (cases r) simp_all
  with Cons.IH s Cons.prems(3) show ?case by auto
qed

text \<open>
  Claim C10, as stated, fails: a successful \<^verbatim>\<open>set_detector_parameters\<close> earlier does not
  keep the assertion from failing later. After a successful call, a call of
  \<^verbatim>\<open>set_detector_parameters(None)\<close> raises its fault but has already stored
  \<^verbatim>\<open>None\<close>, and \<^verbatim>\<open>unstage\<close> then fails the assertion.
\<close>

theorem unstage_asserts_after_params_reset:
  "set_detector_parameters (Some TEST_DETECTOR_PARAMS) EigerDetector_init =
     (Returned (), fake_eiger) \<and>
   set_detector_parameters None fake_eiger =
     (Raised (Exception ''Parameters for scan must be specified''),
      fake_eiger\<lparr>detector_params := None\<rparr>) \<and>
   unstage test_env (fake_eiger\<lparr>detector_params := None\<rparr>) =
     (Raised AssertionError, fake_eiger\<lparr>detector_params := None\<rparr>)"
  by (simp add: set_detector_parameters_def Let_def return_def raise_def EigerDetector_init_def
        fake_eiger_def TEST_DETECTOR_PARAMS_def unstage_def assert_detector_params_def bind_def)

text \<open>
  Claim C10, amended. Called while \<^verbatim>\<open>detector_params\<close> is \<^verbatim>\<open>None\<close>, \<^verbatim>\<open>unstage\<close>
  fails its assertion at once: it raises instead of returning a health boolean, and the
  detector and its trace are unchanged, so the writer has not been touched. After a
  successful \<^verbatim>\<open>set_detector_parameters\<close>, and after any further calls of \<^verbatim>\<open>stage\<close>,
  \<^verbatim>\<open>unstage\<close> and \<^verbatim>\<open>set_detector_parameters\<close> among which none passes \<^verbatim>\<open>None\<close>,
  whether these calls return or raise, the parameters are stored and \<^verbatim>\<open>unstage\<close> never
  fails an assertion.
\<close>

theorem unstage_requires_detector_params:
  "(detector_params self = None \<longrightarrow> unstage E self = (Raised AssertionError, self)) \<and>
   (set_detector_parameters params self0 = (Returned (), self1) \<and>
    after_calls calls self1 = Some self \<and>
    (\<forall>(E', c) \<in> set calls. c \<noteq> SetDetectorParameters None) \<longrightarrow>
      detector_params self \<noteq> None \<and> fst (unstage E self) \<noteq> Raised AssertionError)"
proof (intro conjI impI)
  assume "detector_params self = None"
  then show "unstage E self = (Raised AssertionError, self)"
    by (simp add: unstage_def assert_detector_params_def action_defs)
next
  assume a: "set_detector_parameters params self0 = (Returned (), self1) \<and>
    after_calls calls self1 = Some self \<and>
    (\<forall>(E', c) \<in> set calls. c \<noteq> SetDetectorParameters None)"
  then have "detector_params self1 \<noteq> None"
    using set_detector_parameters_returns by blast
  with a show stored: "detector_params self \<noteq> None"
    using after_calls_keeps_params_stored by blast
  then obtain p where "detector_params self = Some p" by auto
  with keeps_unstage [of p E] show "fst (unstage E self) \<noteq> Raised AssertionError"
    by (simp add: keeps_params_def)
qed

theorem unstage_requires_detector_params_witness:
  "detector_params EigerDetector_init = None \<and>
   unstage test_env EigerDetector_init = (Raised AssertionError, EigerDetector_init) \<and>
   set_detector_parameters (Some TEST_DETECTOR_PARAMS) EigerDetector_init = (Returned (), fake_eiger) \<and>
   after_calls
     [(test_env, SetDetectorParameters (Some (TEST_DETECTOR_PARAMS\<lparr>beam_xy_converter := None\<rparr>))),
      (roi_failing_env, Stage)] fake_eiger =
     Some (fake_eiger\<lparr>detector_params := Some (TEST_DETECTOR_PARAMS\<lparr>beam_xy_converter := None\<rparr>),
        trace :=
          [ClearOdinErrors,
           SetCall CamRoiMode (VInt 1),
           SetCall OdinImageHeight (VInt 2164),
           SetCall OdinImageWidth (VInt 4148),
           SetCall OdinNumRowChunks (VInt 2164),
           SetCall OdinNumColChunks (VInt 4148)]\<rparr>) \<and>
   fst (unstage test_env
     (fake_eiger\<lparr>detector_params := Some (TEST_DETECTOR_PARAMS\<lparr>beam_xy_converter := None\<rparr>),
        trace :=
          [ClearOdinErrors,
           SetCall CamRoiMode (VInt 1),
           SetCall OdinImageHeight (VInt 2164),
           SetCall OdinImageWidth (VInt 4148),
           SetCall OdinNumRowChunks (VInt 2164),
           SetCall OdinNumColChunks (VInt 4148)]\<rparr>)) \<noteq> Raised AssertionError"
proof -
  let ?bad = "TEST_DETECTOR_PARAMS\<lparr>beam_xy_converter := None\<rparr>"
  let ?s1 = "fake_eiger\<lparr>detector_params := Some ?bad\<rparr>"
  let ?s2 = "fake_eiger\<lparr>detector_params := Some ?bad,
        trace :=
          [ClearOdinErrors,
           SetCall CamRoiMode (VInt 1),
           SetCall OdinImageHeight (VInt 2164),
           SetCall OdinImageWidth (VInt 4148),
           SetCall OdinNumRowChunks (VInt 2164),
           SetCall OdinNumColChunks (VInt 4148)]\<rparr>"
  have h1: "detector_params EigerDetector_init = None"
    by (simp add: EigerDetector_init_def)
  have h2: "set_detector_parameters (Some TEST_DETECTOR_PARAMS) EigerDetector_init =
      (Returned (), fake_eiger)"
    by (simp add: set_detector_parameters_def Let_def return_def EigerDetector_init_def
          fake_eiger_def TEST_DETECTOR_PARAMS_def)
  have c1: "set_detector_parameters (Some ?bad) fake_eiger =
      (Raised (Exception ''Beam converter must be set''), ?s1)"
    by (simp add: set_detector_parameters_def Let_def raise_def join_lines_simps
          TEST_DETECTOR_PARAMS_def)
  have p: "detector_params (?s1\<lparr>trace := trace ?s1 @ [ClearOdinErrors]\<rparr>) = Some ?bad"
    by simp
  have c: "detector_size_constants ?bad = Some TEST_DETECTOR_SIZE_CONSTANTS"
    by (simp add: TEST_DETECTOR_PARAMS_def)
  have w: "wait_ends roi_failing_env roi_switch_status (Some 10) = WaitRaises"
    by (simp add: roi_failing_env_def)
  have "enable_roi_mode roi_failing_env (?s1\<lparr>trace := trace ?s1 @ [ClearOdinErrors]\<rparr>) =
      (Raised StatusFailure, ?s2)"
    unfolding enable_roi_mode_def
    using change_roi_mode_wait_raises [OF p c, of roi_failing_env True] w
    by (simp add: roi_switch_status_def TEST_DETECTOR_SIZE_CONSTANTS_def fake_eiger_def)
  moreover have "fst (odin_initialised roi_failing_env)"
    by (simp add: roi_failing_env_def test_env_def)
  moreover have "detector_params ?s1 = Some ?bad"
    by simp
  moreover have "use_roi_mode ?bad"
    by (simp add: TEST_DETECTOR_PARAMS_def)
  ultimately have c2: "stage roi_failing_env ?s1 = (Raised StatusFailure, ?s2)"
    by (rule stage_aborts_when_roi_wait_raises [rotated 3])
  from c1 c2 have h3: "after_calls
     [(test_env, SetDetectorParameters (Some ?bad)), (roi_failing_env, Stage)] fake_eiger =
     Some ?s2"
    by simp
  have h4: "\<forall>(E', c) \<in> set [(test_env, SetDetectorParameters (Some ?bad)),
      (roi_failing_env, Stage)]. c \<noteq> SetDetectorParameters None"
    by simp
  from h1 h2 h3 h4
    unstage_requires_detector_params [of EigerDetector_init test_env
      "Some TEST_DETECTOR_PARAMS" EigerDetector_init fake_eiger "[]"]
    unstage_requires_detector_params [of ?s2 test_env "Some TEST_DETECTOR_PARAMS"
      EigerDetector_init fake_eiger
      "[(test_env, SetDetectorParameters (Some ?bad)), (roi_failing_env, Stage)]"]
  show ?thesis by blast
qed

text \<open>
  Claim C8 on a concrete run: ROI mode is requested, the writer is initialised, and the
  wait on the ROI composite raises. \<^verbatim>\<open>stage\<close> raises the same fault; the trace holds
  the clearing of the writer errors and the five ROI writes, no logged error and none of
  the later configuration writes.
\<close>

theorem stage_aborted_by_roi_switch_failure:
  "stage roi_failing_env fake_eiger =
     (Raised StatusFailure,
      fake_eiger\<lparr>trace :=
        [ClearOdinErrors,
         SetCall CamRoiMode (VInt 1),
         SetCall OdinImageHeight (VInt 2164),
         SetCall OdinImageWidth (VInt 4148),
         SetCall OdinNumRowChunks (VInt 2164),
         SetCall OdinNumColChunks (VInt 4148)]\<rparr>)"
proof -
  let ?s = "fake_eiger\<lparr>trace := trace fake_eiger @ [ClearOdinErrors]\<rparr>"
  have p: "detector_params ?s = Some TEST_DETECTOR_PARAMS"
    by (simp add: fake_eiger_def)
  have c: "detector_size_constants TEST_DETECTOR_PARAMS = Some TEST_DETECTOR_SIZE_CONSTANTS"
    by (simp add: TEST_DETECTOR_PARAMS_def)
  have w: "wait_ends roi_failing_env roi_switch_status (Some 10) = WaitRaises"
    by (simp add: roi_failing_env_def)
  have "enable_roi_mode roi_failing_env ?s =
      (Raised StatusFailure,
       fake_eiger\<lparr>trace :=
        [ClearOdinErrors,
         SetCall CamRoiMode (VInt 1),
         SetCall OdinImageHeight (VInt 2164),
         SetCall OdinImageWidth (VInt 4148),
         SetCall OdinNumRowChunks (VInt 2164),
         SetCall OdinNumColChunks (VInt 4148)]\<rparr>)"
    unfolding enable_roi_mode_def
    using change_roi_mode_wait_raises [OF p c, of roi_failing_env True] w
    by (simp add: roi_switch_status_def TEST_DETECTOR_SIZE_CONSTANTS_def fake_eiger_def)
  moreover have "fst (odin_initialised roi_failing_env)"
    by (simp add: roi_failing_env_def test_env_def)
  moreover have "detector_params fake_eiger = Some TEST_DETECTOR_PARAMS"
    by (simp add: fake_eiger_def)
  moreover have "use_roi_mode TEST_DETECTOR_PARAMS"
    by (simp add: TEST_DETECTOR_PARAMS_def)
  ultimately show ?thesis
    by (rule stage_aborts_when_roi_wait_raises [rotated 3])
qed

end
